theory Spec2Isabelle
  imports Main "HOL-Library.Word" "HOL-Library.Char_ord" "HOL-Library.List_Lexorder"
    "HOL-Library.AList"
begin

section \<open>Errors\<close>

text \<open>
  Go's \<open>error\<close> values as they occur in the client. \<open>InvalidParameterError\<close> and
  \<open>ResponseError\<close> are the struct types of the repository's \<open>errors\<close> package as the
  endpoints and the requester build them (\<open>InvalidParameterError{Parameter, Reason}\<close>,
  \<open>ResponseError{Code, HTTPStatusCode, Err}\<close>); \<open>Sentinel n\<close> is the package-level
  error variable named \<open>n\<close> (its identity is its name); \<open>Errorf m\<close> is the error of a
  \<open>fmt.Errorf\<close> call without \<open>%w\<close> and \<open>Wrapf m e\<close> the one of a call that wraps \<open>e\<close>
  with \<open>%w\<close>. \<open>Err = None\<close> is Go's nil interface.
\<close>

datatype error =
    InvalidParameterError (Parameter: string) (Reason: string)
  | Sentinel string
  | Errorf string
  | Wrapf string error
  | ResponseError (Code: int) (HTTPStatusCode: int) (Err: "error option")

section \<open>\<open>json.Number.Int64\<close>\<close>

text \<open>
  \<open>json.Number\<close> is a string; \<open>Int64\<close> is \<open>strconv.ParseInt(s, 10, 64)\<close>: an optional
  sign, then at least one decimal digit and nothing else, and the value must fit
  an \<open>int64\<close>. \<open>None\<close> stands for the non-nil \<open>err\<close>.
\<close>

definition digit_val :: "char \<Rightarrow> nat option" where
  "digit_val c =
     (if (48::nat) \<le> of_char c \<and> of_char c \<le> (57::nat) then Some (of_char c - 48) else None)"

fun ParseUint_from :: "nat \<Rightarrow> string \<Rightarrow> nat option" where
  "ParseUint_from n [] = Some n"
| "ParseUint_from n (c # cs) =
     (case digit_val c of None \<Rightarrow> None | Some d \<Rightarrow> ParseUint_from (n * 10 + d) cs)"

definition ParseUint :: "string \<Rightarrow> nat option" where
  "ParseUint s = (if s = [] then None else ParseUint_from 0 s)"

definition ParseInt :: "string \<Rightarrow> int option" where
  "ParseInt s =
     (if s = [] then None
      else
        let neg = (hd s = CHR ''-'');
            s1 = (if hd s = CHR ''+'' \<or> hd s = CHR ''-'' then tl s else s)
        in case ParseUint s1 of
             None \<Rightarrow> None
           | Some un \<Rightarrow>
               if \<not> neg \<and> un \<ge> 2 ^ 63 then None
               else if neg \<and> un > 2 ^ 63 then None
               else Some (if neg then - int un else int un))"

definition Int64 :: "string \<Rightarrow> int option" where
  "Int64 n = ParseInt n"

section \<open>Response classification\<close>

text \<open>
  Modelled from the spec: \<open>errors.NewResponseError\<close> and its table from numeric codes to
  sentinel errors (package \<open>errors\<close>) are not among the sources. The spec says that a code is mapped through a
  fixed code-to-kind table and that the error carries the HTTP status, the raw numeric
  code and, when the code is recognised, the mapped kind; the test
  \<open>TestClient_GetTickers_Error\<close> expects \<open>ResponseError{Code: 10003, HTTPStatusCode: 418,
  Err: ErrIllegalIP}\<close>. The table is a parameter (code to the name of the sentinel).
\<close>

definition NewResponseError :: "(int \<Rightarrow> string option) \<Rightarrow> int \<Rightarrow> int \<Rightarrow> error" where
  "NewResponseError tbl httpStatusCode code =
     ResponseError code httpStatusCode (map_option Sentinel (tbl code))"

text \<open>The one entry of the table that the sources show (the test above).\<close>

definition testCodeTable :: "int \<Rightarrow> string option" where
  "testCodeTable = [10003 \<mapsto> ''ErrIllegalIP'']"

text \<open>
  \<open>Requester.CheckErrorResponse\<close>; \<open>None\<close> is the nil error. The zero value of the
  \<open>Code\<close> field that the composite literal leaves out is written out.
\<close>

definition CheckErrorResponse :: "(int \<Rightarrow> string option) \<Rightarrow> int \<Rightarrow> string \<Rightarrow> error option" where
  "CheckErrorResponse tbl statusCode responseCode =
     (if statusCode \<ge> 400 then
        (case Int64 responseCode of
           None \<Rightarrow> Some (ResponseError 0 statusCode
                           (Some (Errorf (''invalid response code: '' @ responseCode))))
         | Some code \<Rightarrow> Some (NewResponseError tbl statusCode code))
      else None)"

text \<open>
  \<open>errors.Is(err, target)\<close> for a target that is a sentinel: the chain of \<open>Unwrap\<close> is
  followed and each link compared by identity. Modelled from the spec: that a
  \<open>ResponseError\<close> unwraps to its \<open>Err\<close> field is code of the \<open>errors\<close> package, not
  among the sources; the test asserts \<open>errors.Is(err, expectedResponseError.Err)\<close>.
\<close>

fun errors_Is :: "error \<Rightarrow> string \<Rightarrow> bool" where
  "errors_Is (Sentinel n) target = (n = target)"
| "errors_Is (Wrapf m e) target = errors_Is e target"
| "errors_Is (ResponseError c h eo) target =
     (case eo of None \<Rightarrow> False | Some e \<Rightarrow> errors_Is e target)"
| "errors_Is (Errorf m) target = False"
| "errors_Is (InvalidParameterError p r) target = False"

text \<open>\<open>errors.As(err, &responseError)\<close>: the first \<open>ResponseError\<close> of the chain.\<close>

fun errors_As_ResponseError :: "error \<Rightarrow> error option" where
  "errors_As_ResponseError (ResponseError c h eo) = Some (ResponseError c h eo)"
| "errors_As_ResponseError (Wrapf m e) = errors_As_ResponseError e"
| "errors_As_ResponseError (Sentinel n) = None"
| "errors_As_ResponseError (Errorf m) = None"
| "errors_As_ResponseError (InvalidParameterError p r) = None"

section \<open>Values, text and time\<close>

text \<open>
  The values a \<open>map[string]interface{}\<close> of request parameters holds, and JSON documents:
  Go's \<open>string\<close>, \<open>int\<close>/\<open>int64\<close>, \<open>float64\<close> (its 64 bits), \<open>bool\<close>, \<open>nil\<close>, slices
  and nested maps. A map is an association list with one entry per key.
\<close>

datatype json =
    JNull
  | JBool bool
  | JString string
  | JInt int
  | JFloat "64 word"
  | JArray "json list"
  | JObject "(string \<times> json) list"

text \<open>Plain decimal text of an integer, as \<open>%d\<close> and \<open>strconv\<close> print it.\<close>

fun string_of_nat :: "nat \<Rightarrow> string" where
  "string_of_nat n =
     (if n < 10 then [''0123456789'' ! n]
      else string_of_nat (n div 10) @ [''0123456789'' ! (n mod 10)])"

declare string_of_nat.simps [simp del]

definition string_of_int :: "int \<Rightarrow> string" where
  "string_of_int i =
     (if i < 0 then CHR ''-'' # string_of_nat (nat (- i)) else string_of_nat (nat i))"

text \<open>
  \<open>time.Time\<close>: seconds since January 1 of year 1, 00:00:00 UTC, and nanoseconds within
  the second. \<open>IsZero\<close> and \<open>UnixMilli\<close> as in package \<open>time\<close> (62135596800 seconds lie
  between year 1 and 1970); the result is an unbounded integer here, where Go leaves a
  value outside \<open>int64\<close> undefined.
\<close>

datatype Time = Time (sec: int) (nsec: nat)

definition IsZero :: "Time \<Rightarrow> bool" where
  "IsZero t = (sec t = 0 \<and> nsec t = 0)"

definition UnixMilli :: "Time \<Rightarrow> int" where
  "UnixMilli t = (sec t - 62135596800) * 1000 + int (nsec t div 1000000)"

text \<open>\<open>f != 0\<close> on a \<open>float64\<close>: false exactly for the two zeros \<open>+0\<close> and \<open>-0\<close>.\<close>

definition float64_nonzero :: "64 word \<Rightarrow> bool" where
  "float64_nonzero w = (take_bit 63 w \<noteq> 0)"

section \<open>The request envelope and its JSON form\<close>

text \<open>\<open>api.Request\<close> (\<open>internal/api/types.go\<close>). \<open>Params = None\<close> is the nil map.\<close>

record Request =
  ID :: int
  Method :: string
  Nonce :: int
  Params :: "(string \<times> json) list option"
  Signature :: string
  APIKey :: string
  Version :: string

definition V1 :: string where
  "V1 = ''exchange/v1/''"

definition V2 :: string where
  "V2 = ''v2/''"

text \<open>
  Strings in JSON. \<open>json.Marshal\<close> walks a string byte by byte: a byte below 128 is
  kept; otherwise \<open>utf8.DecodeRuneInString\<close> is asked, and where it finds no valid
  encoding (it returns \<open>RuneError\<close> with size 1) the one byte is replaced by U+FFFD, whose
  encoding is the three bytes EF BF BD; a valid encoding is kept. \<open>rune_len\<close> is the
  size of the valid encoding a string starts with, 0 when it starts with none, after
  the tables of package \<open>utf8\<close>: the first byte fixes the length and the range of the
  second byte, further bytes are continuation bytes. Escapes (quotes, control
  characters, HTML) change the bytes written, not the string a reader decodes, and are
  not modelled.
\<close>

definition cont :: "nat \<Rightarrow> bool" where
  "cont b = (0x80 \<le> b \<and> b \<le> 0xBF)"

fun rune_len_bytes :: "nat list \<Rightarrow> nat" where
  "rune_len_bytes [] = 0"
| "rune_len_bytes (b0 # bs) =
     (if b0 < 0x80 then 1
      else if 0xC2 \<le> b0 \<and> b0 \<le> 0xDF then
        (case bs of b1 # _ \<Rightarrow> if cont b1 then 2 else 0 | _ \<Rightarrow> 0)
      else if 0xE0 \<le> b0 \<and> b0 \<le> 0xEF then
        (case bs of
           b1 # b2 # _ \<Rightarrow>
             if (if b0 = 0xE0 then 0xA0 else 0x80) \<le> b1
                \<and> b1 \<le> (if b0 = 0xED then 0x9F else 0xBF) \<and> cont b2
             then 3 else 0
         | _ \<Rightarrow> 0)
      else if 0xF0 \<le> b0 \<and> b0 \<le> 0xF4 then
        (case bs of
           b1 # b2 # b3 # _ \<Rightarrow>
             if (if b0 = 0xF0 then 0x90 else 0x80) \<le> b1
                \<and> b1 \<le> (if b0 = 0xF4 then 0x8F else 0xBF) \<and> cont b2 \<and> cont b3
             then 4 else 0
         | _ \<Rightarrow> 0)
      else 0)"

definition rune_len :: "string \<Rightarrow> nat" where
  "rune_len s = rune_len_bytes (map of_char s)"

fun json_string :: "string \<Rightarrow> string" where
  "json_string [] = []"
| "json_string (c # cs) =
     (if rune_len (c # cs) = 0 then [CHR 0xEF, CHR 0xBF, CHR 0xBD] @ json_string cs
      else take (rune_len (c # cs)) (c # cs) @ json_string (drop (rune_len (c # cs)) (c # cs)))"

text \<open>\<open>utf8.ValidString\<close>: the string is a sequence of valid encodings.\<close>

fun valid_utf8 :: "string \<Rightarrow> bool" where
  "valid_utf8 [] = True"
| "valid_utf8 (c # cs) =
     (if rune_len (c # cs) = 0 then False
      else valid_utf8 (drop (rune_len (c # cs)) (c # cs)))"

declare json_string.simps [simp del] valid_utf8.simps [simp del]

text \<open>
  \<open>json.Marshal\<close> on the values above: it fails on a \<open>float64\<close> that is NaN or an
  infinity (all eleven exponent bits set); it writes the entries of a map in the order
  of their keys (the keys as the map holds them), and every string, key or value,
  through \<open>json_string\<close>. The text of the error names the value; that part of the text
  is left out.
\<close>

fun supported :: "json \<Rightarrow> bool" where
  "supported (JFloat w) = (take_bit 11 (drop_bit 52 w) \<noteq> (2047 :: 64 word))"
| "supported (JArray xs) = list_all supported xs"
| "supported (JObject kvs) = list_all (\<lambda>(k, v). supported v) kvs"
| "supported v = True"

fun marshal_value :: "json \<Rightarrow> json" where
  "marshal_value (JString s) = JString (json_string s)"
| "marshal_value (JArray xs) = JArray (map marshal_value xs)"
| "marshal_value (JObject kvs) =
     JObject (map (\<lambda>(k, v). (json_string k, marshal_value v)) (sort_key fst kvs))"
| "marshal_value v = v"

text \<open>
  \<open>json.Marshal(body)\<close> for a \<open>Request\<close>: the fields in the order of the struct, under
  the names of their tags; \<open>sig\<close> and \<open>api_key\<close> carry \<open>omitempty\<close> and are left out when
  the string is empty, \<open>version\<close> does not; a nil map is written as \<open>null\<close>. The result is
  the JSON document as a tree (its rendering to bytes is not modelled).
\<close>

definition marshal_Params :: "(string \<times> json) list option \<Rightarrow> json" where
  "marshal_Params p = (case p of None \<Rightarrow> JNull | Some kvs \<Rightarrow> marshal_value (JObject kvs))"

definition json_Marshal :: "Request \<Rightarrow> error + json" where
  "json_Marshal body =
     (if \<not> (case Params body of None \<Rightarrow> True | Some kvs \<Rightarrow> supported (JObject kvs))
      then Inl (Errorf ''json: unsupported value'')
      else Inr (JObject
        ([(''id'', JInt (ID body)),
          (''method'', JString (json_string (Method body))),
          (''nonce'', JInt (Nonce body)),
          (''params'', marshal_Params (Params body))]
         @ (if Signature body \<noteq> []
            then [(''sig'', JString (json_string (Signature body)))] else [])
         @ (if APIKey body \<noteq> []
            then [(''api_key'', JString (json_string (APIKey body)))] else [])
         @ [(''version'', JString (json_string (Version body)))])))"

text \<open>The names of the members of a JSON object, and one member.\<close>

definition members :: "json \<Rightarrow> string list" where
  "members j = (case j of JObject kvs \<Rightarrow> map fst kvs | _ \<Rightarrow> [])"

definition member :: "json \<Rightarrow> string \<Rightarrow> json option" where
  "member j k = (case j of JObject kvs \<Rightarrow> map_of kvs k | _ \<Rightarrow> None)"

section \<open>Transport\<close>

text \<open>
  An \<open>http.Request\<close> as the client builds it: method, URL, the query pairs of the URL,
  headers and the body (\<open>None\<close> is the nil body), and the \<open>http.Response\<close> it reads:
  the status code and the result of \<open>io.ReadAll\<close> on the body.
\<close>

record http_request =
  req_Method :: string
  req_URL :: string
  req_Query :: "(string \<times> string) list"
  req_Header :: "(string \<times> string) list"
  req_Body :: "json option"

record http_response =
  StatusCode :: int
  res_Body :: "error + string"

text \<open>
  \<open>api.Requester\<close>: \<open>Do\<close> is \<open>r.Client.Do\<close>, the injected \<open>http.Client\<close>.
\<close>

record Requester =
  Do :: "http_request \<Rightarrow> error + http_response"
  BaseURL :: string

text \<open>
  What the client takes from the standard library and from the \<open>errors\<close> package without
  their code being modelled: \<open>url_Parse\<close> is \<open>url.Parse\<close> inside
  \<open>http.NewRequestWithContext\<close> (the error, or the query pairs the URL already carries);
  \<open>Unmarshal\<close> is \<open>json.Unmarshal\<close> into the response struct of the endpoint (the
  error, or the decoded \<open>Code\<close> and \<open>Result\<close>); \<open>codeTable\<close> is the table of
  \<open>NewResponseError\<close>.
\<close>

record 'r env =
  url_Parse :: "string \<Rightarrow> error + (string \<times> string) list"
  Unmarshal :: "string \<Rightarrow> error + (string \<times> 'r)"
  codeTable :: "int \<Rightarrow> string option"

definition NewRequest :: "'r env \<Rightarrow> string \<Rightarrow> string \<Rightarrow> json option \<Rightarrow> error + http_request" where
  "NewRequest env httpMethod url body =
     (case url_Parse env url of
        Inl err \<Rightarrow> Inl err
      | Inr q \<Rightarrow> Inr \<lparr>req_Method = httpMethod, req_URL = url, req_Query = q,
                      req_Header = [], req_Body = body\<rparr>)"

text \<open>\<open>req.Header.Set\<close>, and \<open>url.Values.Add\<close> followed by \<open>Encode\<close> (sorted by key).\<close>

definition Header_Set :: "string \<Rightarrow> string \<Rightarrow> http_request \<Rightarrow> http_request" where
  "Header_Set k v req = req\<lparr>req_Header := AList.update k v (req_Header req)\<rparr>"

definition Encode :: "(string \<times> string) list \<Rightarrow> (string \<times> string) list" where
  "Encode q = sort_key fst q"

text \<open>
  \<open>Requester.doRequest\<close>, with \<open>Post\<close> and \<open>Get\<close>. It returns the requests sent and
  either the error or the status code with the decoded \<open>Code\<close> and \<open>Result\<close> (the
  source fills \<open>response\<close> in place).
\<close>

definition doRequest ::
  "'r env \<Rightarrow> Requester \<Rightarrow> string \<Rightarrow> Request \<Rightarrow> string
     \<Rightarrow> http_request list \<times> (error + int \<times> string \<times> 'r)" where
  "doRequest env r httpMethod body method =
     (case json_Marshal body of
        Inl err \<Rightarrow> ([], Inl (Wrapf ''failed to marshal request body: '' err))
      | Inr b \<Rightarrow>
          let version = (if Version body \<noteq> [] then Version body else V1) in
          (case NewRequest env httpMethod (BaseURL r @ version @ method) (Some b) of
             Inl err \<Rightarrow> ([], Inl (Wrapf ''failed to create request: '' err))
           | Inr req0 \<Rightarrow>
               let req = Header_Set ''Content-Type'' ''application/json'' req0 in
               (case Do r req of
                  Inl err \<Rightarrow> ([req], Inl (Wrapf ''failed to do request: '' err))
                | Inr res \<Rightarrow>
                    (case res_Body res of
                       Inl err \<Rightarrow> ([req], Inl (Wrapf ''failed to read response body: '' err))
                     | Inr resBytes \<Rightarrow>
                         (case Unmarshal env resBytes of
                            Inl err \<Rightarrow>
                              ([req], Inl (Wrapf (''failed to unmarshal response body: ''
                                                    @ resBytes @ '', error: '') err))
                          | Inr (code, result) \<Rightarrow>
                              ([req], Inr (StatusCode res, code, result)))))))"

definition Post ::
  "'r env \<Rightarrow> Requester \<Rightarrow> Request \<Rightarrow> string \<Rightarrow> http_request list \<times> (error + int \<times> string \<times> 'r)" where
  "Post env r body method = doRequest env r ''POST'' body method"

definition Get ::
  "'r env \<Rightarrow> Requester \<Rightarrow> Request \<Rightarrow> string \<Rightarrow> http_request list \<times> (error + int \<times> string \<times> 'r)" where
  "Get env r body method = doRequest env r ''GET'' body method"

section \<open>The client and its collaborators\<close>

text \<open>
  \<open>auth.SignatureRequest\<close>, as the endpoints fill it (the fields carry the prefix
  \<open>sr_\<close>; the type itself is declared in \<open>internal/auth\<close>).
\<close>

record SignatureRequest =
  sr_APIKey :: string
  sr_SecretKey :: string
  sr_ID :: int
  sr_Method :: string
  sr_Timestamp :: int
  sr_Params :: "(string \<times> json) list option"

text \<open>
  \<open>Client\<close> (\<open>client.go\<close>). The collaborators are interfaces the caller can replace;
  an operation asks each of them at most once, so each is what it answers:
  \<open>clock\<close> is the time \<open>c.clock.Now()\<close> returns, \<open>idGenerator\<close> the id
  \<open>c.idGenerator.Generate()\<close> returns, \<open>signatureGenerator\<close> the result of
  \<open>GenerateSignature\<close> (an error or the signature). \<open>GenerateSignature\<close> is taken not to
  write to the map it is given, and no \<open>UpdateConfig\<close> runs during an operation.
\<close>

record Client =
  apiKey :: string
  secretKey :: string
  clock :: Time
  idGenerator :: int
  signatureGenerator :: "SignatureRequest \<Rightarrow> error + string"
  requester :: Requester

text \<open>
  What a call does to the outside, in order: it asks the id generator, reads the clock,
  calls the signature generator, sends a request.
\<close>

datatype event = GenerateID | ClockNow | GenerateSignature SignatureRequest | HTTPDo http_request

section \<open>Public endpoints\<close>

definition methodGetInstruments :: string where
  "methodGetInstruments = ''public/get-instruments''"

definition methodGetTicker :: string where
  "methodGetTicker = ''public/get-tickers''"

definition methodGetBook :: string where
  "methodGetBook = ''public/get-book''"

text \<open>\<open>Client.GetInstruments\<close> (\<open>getinstruments.go\<close>).\<close>

definition GetInstruments :: "'r env \<Rightarrow> Client \<Rightarrow> event list \<times> (error + 'r)" where
  "GetInstruments env c =
     (let body = \<lparr>ID = idGenerator c, Method = methodGetInstruments,
                   Nonce = UnixMilli (clock c), Params = None, Signature = [], APIKey = [],
                   Version = []\<rparr>;
          (sent, res) = Get env (requester c) body methodGetInstruments;
          trace = [GenerateID, ClockNow] @ map HTTPDo sent
      in case res of
           Inl err \<Rightarrow> (trace, Inl (Wrapf ''failed to execute post request: '' err))
         | Inr (statusCode, code, result) \<Rightarrow>
             (case CheckErrorResponse (codeTable env) statusCode code of
                Some err \<Rightarrow> (trace, Inl (Wrapf ''error received in response: '' err))
              | None \<Rightarrow> (trace, Inr result)))"

text \<open>
  The part \<open>GetTickers\<close> and \<open>GetBook\<close> have in common word for word: send the request
  built, read the body, decode it, classify.
\<close>

definition send_and_decode ::
  "'r env \<Rightarrow> Client \<Rightarrow> http_request \<Rightarrow> event list \<times> (error + 'r)" where
  "send_and_decode env c req =
     (case Do (requester c) req of
        Inl err \<Rightarrow> ([HTTPDo req], Inl (Wrapf ''failed to do request: '' err))
      | Inr res \<Rightarrow>
          (case res_Body res of
             Inl err \<Rightarrow> ([HTTPDo req], Inl (Wrapf ''failed to read response body: '' err))
           | Inr resBytes \<Rightarrow>
               (case Unmarshal env resBytes of
                  Inl err \<Rightarrow>
                    ([HTTPDo req], Inl (Wrapf ''failed to unmarshal response body: '' err))
                | Inr (code, result) \<Rightarrow>
                    (case CheckErrorResponse (codeTable env) (StatusCode res) code of
                       Some err \<Rightarrow>
                         ([HTTPDo req], Inl (Wrapf ''error received in response: '' err))
                     | None \<Rightarrow> ([HTTPDo req], Inr result)))))"

text \<open>\<open>Client.GetTickers\<close>.\<close>

definition GetTickers :: "'r env \<Rightarrow> Client \<Rightarrow> string \<Rightarrow> event list \<times> (error + 'r)" where
  "GetTickers env c instrument =
     (case NewRequest env ''GET'' (BaseURL (requester c) @ V1 @ methodGetTicker) None of
        Inl err \<Rightarrow> ([], Inl (Wrapf ''failed to create request: '' err))
      | Inr req0 \<Rightarrow>
          let req1 = Header_Set ''Content-Type'' ''application/json'' req0;
              req = (if instrument \<noteq> [] then
                       req1\<lparr>req_Query :=
                         Encode (req_Query req1 @ [(''instrument_name'', instrument)])\<rparr>
                     else req1)
          in send_and_decode env c req)"

text \<open>\<open>Client.GetBook\<close>.\<close>

definition GetBook :: "'r env \<Rightarrow> Client \<Rightarrow> string \<Rightarrow> int \<Rightarrow> event list \<times> (error + 'r)" where
  "GetBook env c instrument depth =
     (case NewRequest env ''GET'' (BaseURL (requester c) @ V2 @ methodGetBook) None of
        Inl err \<Rightarrow> ([], Inl (Wrapf ''failed to create request: '' err))
      | Inr req0 \<Rightarrow>
          let req1 = Header_Set ''Content-Type'' ''application/json'' req0;
              q = req_Query req1;
              q = q @ [(''instrument_name'', instrument)];
              q = (if depth > 0 then q @ [(''depth'', string_of_int depth)] else q);
              req = req1\<lparr>req_Query := Encode q\<rparr>
          in send_and_decode env c req)"

section \<open>Private endpoints\<close>

text \<open>
  The part every private endpoint repeats word for word after it has built \<open>params\<close>:
  sign, assemble the body, post it, classify the response. \<open>method\<close> and \<open>version\<close>
  are the constants the endpoint writes into the two composite literals.
\<close>

definition sign_and_post ::
  "'r env \<Rightarrow> Client \<Rightarrow> string \<Rightarrow> string \<Rightarrow> (string \<times> json) list
     \<Rightarrow> event list \<times> (error + 'r)" where
  "sign_and_post env c method version params =
     (let id = idGenerator c;
          timestamp = UnixMilli (clock c);
          sr = \<lparr>sr_APIKey = apiKey c, sr_SecretKey = secretKey c, sr_ID = id,
                 sr_Method = method, sr_Timestamp = timestamp, sr_Params = Some params\<rparr>
      in case signatureGenerator c sr of
           Inl err \<Rightarrow>
             ([GenerateID, ClockNow, GenerateSignature sr],
              Inl (Wrapf ''failed to create signature: '' err))
         | Inr signature \<Rightarrow>
             (let body = \<lparr>ID = id, Method = method, Nonce = timestamp, Params = Some params,
                           Signature = signature, APIKey = apiKey c, Version = version\<rparr>;
                  (sent, res) = Post env (requester c) body method;
                  trace = [GenerateID, ClockNow, GenerateSignature sr] @ map HTTPDo sent
              in (case res of
                    Inl err \<Rightarrow> (trace, Inl (Wrapf ''failed to execute post request: '' err))
                  | Inr (statusCode, code, result) \<Rightarrow>
                      (case CheckErrorResponse (codeTable env) statusCode code of
                         Some err \<Rightarrow> (trace, Inl (Wrapf ''error received in response: '' err))
                       | None \<Rightarrow> (trace, Inr result)))))"

subsection \<open>\<open>private/get-deposit-history\<close>\<close>

definition methodGetDepositHistory :: string where
  "methodGetDepositHistory = ''private/get-deposit-history''"

record GetDepositHistoryRequest =
  dh_Currency :: string
  dh_Start :: Time
  dh_End :: Time
  dh_PageSize :: int
  dh_Page :: int
  dh_Status :: string

text \<open>The map \<open>params\<close> as lines 92 to 110 of \<open>getdeposithistory.go\<close> fill it.\<close>

definition GetDepositHistory_params :: "GetDepositHistoryRequest \<Rightarrow> (string \<times> json) list" where
  "GetDepositHistory_params req =
     (let params = [];
          params = (if dh_Currency req \<noteq> [] then
                      AList.update ''currency'' (JString (dh_Currency req)) params else params);
          params = (if dh_PageSize req \<noteq> 0 then
                      AList.update ''page_size'' (JInt (dh_PageSize req)) params else params);
          params = (if \<not> IsZero (dh_Start req) then
                      AList.update ''start_ts'' (JInt (UnixMilli (dh_Start req))) params
                    else params);
          params = (if \<not> IsZero (dh_End req) then
                      AList.update ''end_ts'' (JInt (UnixMilli (dh_End req))) params
                    else params);
          params = AList.update ''page'' (JInt (dh_Page req)) params;
          params = (if dh_Status req \<noteq> [] then
                      AList.update ''status'' (JString (dh_Status req)) params else params)
      in params)"

definition GetDepositHistory ::
  "'r env \<Rightarrow> Client \<Rightarrow> GetDepositHistoryRequest \<Rightarrow> event list \<times> (error + 'r)" where
  "GetDepositHistory env c req =
     (if dh_PageSize req < 0 then
        ([], Inl (InvalidParameterError ''req.PageSize'' ''cannot be less than 0''))
      else if dh_PageSize req > 200 then
        ([], Inl (InvalidParameterError ''req.PageSize'' ''cannot be greater than 200''))
      else sign_and_post env c methodGetDepositHistory [] (GetDepositHistory_params req))"

subsection \<open>\<open>private/get-withdrawal-history\<close>\<close>

definition methodGetWithdrawalHistory :: string where
  "methodGetWithdrawalHistory = ''private/get-withdrawal-history''"

record GetWithdrawalHistoryRequest =
  wh_Currency :: string
  wh_Start :: Time
  wh_End :: Time
  wh_PageSize :: int
  wh_Page :: int
  wh_Status :: string

definition GetWithdrawalHistory_params ::
  "GetWithdrawalHistoryRequest \<Rightarrow> (string \<times> json) list" where
  "GetWithdrawalHistory_params req =
     (let params = [];
          params = (if wh_Currency req \<noteq> [] then
                      AList.update ''currency'' (JString (wh_Currency req)) params else params);
          params = (if wh_PageSize req \<noteq> 0 then
                      AList.update ''page_size'' (JInt (wh_PageSize req)) params else params);
          params = (if \<not> IsZero (wh_Start req) then
                      AList.update ''start_ts'' (JInt (UnixMilli (wh_Start req))) params
                    else params);
          params = (if \<not> IsZero (wh_End req) then
                      AList.update ''end_ts'' (JInt (UnixMilli (wh_End req))) params
                    else params);
          params = AList.update ''page'' (JInt (wh_Page req)) params;
          params = (if wh_Status req \<noteq> [] then
                      AList.update ''status'' (JString (wh_Status req)) params else params)
      in params)"

definition GetWithdrawalHistory ::
  "'r env \<Rightarrow> Client \<Rightarrow> GetWithdrawalHistoryRequest \<Rightarrow> event list \<times> (error + 'r)" where
  "GetWithdrawalHistory env c req =
     (if wh_PageSize req < 0 then
        ([], Inl (InvalidParameterError ''req.PageSize'' ''cannot be less than 0''))
      else if wh_PageSize req > 200 then
        ([], Inl (InvalidParameterError ''req.PageSize'' ''cannot be greater than 200''))
      else sign_and_post env c methodGetWithdrawalHistory []
             (GetWithdrawalHistory_params req))"

subsection \<open>\<open>private/get-deposit-address\<close>\<close>

definition methodGetDepositAddress :: string where
  "methodGetDepositAddress = ''private/get-deposit-address''"

record GetDepositAddressRequest =
  da_Currency :: string

definition GetDepositAddress_params :: "GetDepositAddressRequest \<Rightarrow> (string \<times> json) list" where
  "GetDepositAddress_params req =
     (let params = [];
          params = (if da_Currency req \<noteq> [] then
                      AList.update ''currency'' (JString (da_Currency req)) params else params)
      in params)"

definition GetDepositAddress ::
  "'r env \<Rightarrow> Client \<Rightarrow> GetDepositAddressRequest \<Rightarrow> event list \<times> (error + 'r)" where
  "GetDepositAddress env c req =
     sign_and_post env c methodGetDepositAddress [] (GetDepositAddress_params req)"

subsection \<open>\<open>private/user-balance-history\<close>\<close>

definition methodUserBalanceHistory :: string where
  "methodUserBalanceHistory = ''private/user-balance-history''"

record UserBalanceHistoryRequest =
  ub_Timeframe :: string
  ub_EndTime :: Time
  ub_Limit :: int

definition UserBalanceHistory_params :: "UserBalanceHistoryRequest \<Rightarrow> (string \<times> json) list" where
  "UserBalanceHistory_params req =
     (let params = [];
          params = (if ub_Timeframe req \<noteq> [] then
                      AList.update ''timeframe'' (JString (ub_Timeframe req)) params
                    else params);
          params = (if ub_Limit req \<noteq> 0 then
                      AList.update ''limit'' (JInt (ub_Limit req)) params else params);
          params = (if \<not> IsZero (ub_EndTime req) then
                      AList.update ''end_time'' (JInt (UnixMilli (ub_EndTime req))) params
                    else params)
      in params)"

definition UserBalanceHistory ::
  "'r env \<Rightarrow> Client \<Rightarrow> UserBalanceHistoryRequest \<Rightarrow> event list \<times> (error + 'r)" where
  "UserBalanceHistory env c req =
     sign_and_post env c methodUserBalanceHistory V1 (UserBalanceHistory_params req)"

subsection \<open>\<open>private/create-withdrawal\<close>\<close>

definition methodCreateWithdrawal :: string where
  "methodCreateWithdrawal = ''private/create-withdrawal''"

record CreateWithdrawalRequest =
  cw_Currency :: string
  cw_Amount :: "64 word"
  cw_Address :: string
  cw_ClientWid :: string
  cw_AddressTag :: string
  cw_NetworkId :: string

definition CreateWithdrawal_params :: "CreateWithdrawalRequest \<Rightarrow> (string \<times> json) list" where
  "CreateWithdrawal_params req =
     (let params = [];
          params = (if cw_Currency req \<noteq> [] then
                      AList.update ''currency'' (JString (cw_Currency req)) params else params);
          params = (if cw_ClientWid req \<noteq> [] then
                      AList.update ''client_wid'' (JString (cw_ClientWid req)) params
                    else params);
          params = (if float64_nonzero (cw_Amount req) then
                      AList.update ''amount'' (JFloat (cw_Amount req)) params else params);
          params = (if cw_Address req \<noteq> [] then
                      AList.update ''address'' (JString (cw_Address req)) params else params);
          params = (if cw_AddressTag req \<noteq> [] then
                      AList.update ''address_tag'' (JString (cw_AddressTag req)) params
                    else params);
          params = (if cw_NetworkId req \<noteq> [] then
                      AList.update ''network_id'' (JString (cw_NetworkId req)) params
                    else params)
      in params)"

definition CreateWithdrawal ::
  "'r env \<Rightarrow> Client \<Rightarrow> CreateWithdrawalRequest \<Rightarrow> event list \<times> (error + 'r)" where
  "CreateWithdrawal env c req =
     sign_and_post env c methodCreateWithdrawal [] (CreateWithdrawal_params req)"

section \<open>Canonical parameter string and signing input\<close>

text \<open>
  Modelled from the spec: the signature generator of \<open>internal/auth\<close> is not among the
  sources. The spec: keys are sorted ascending bytewise at every nesting level; each key
  is immediately followed by the textual form of its value with no separator; arrays
  are the concatenation of the textual forms of their elements in their order; nested
  mappings follow the same rule; null is omitted entirely; numbers are in plain decimal
  and booleans are \<open>true\<close> and \<open>false\<close>. The decimal text of a \<open>float64\<close> is the
  parameter \<open>ft\<close>.
\<close>

fun canonical_text :: "(64 word \<Rightarrow> string) \<Rightarrow> json \<Rightarrow> string" where
  "canonical_text ft JNull = []"
| "canonical_text ft (JBool b) = (if b then ''true'' else ''false'')"
| "canonical_text ft (JString s) = s"
| "canonical_text ft (JInt i) = string_of_int i"
| "canonical_text ft (JFloat w) = ft w"
| "canonical_text ft (JArray xs) = concat (map (canonical_text ft) xs)"
| "canonical_text ft (JObject kvs) =
     concat (map (\<lambda>(k, v). k @ canonical_text ft v)
       (sort_key fst (filter (\<lambda>(k, v). v \<noteq> JNull) kvs)))"

definition canonicalize :: "(64 word \<Rightarrow> string) \<Rightarrow> (string \<times> json) list \<Rightarrow> string" where
  "canonicalize ft params = canonical_text ft (JObject params)"

text \<open>
  Modelled from the spec: the text the keyed hash is computed over,
  \<open>method ++ id ++ apiKey ++ canonicalParams ++ nonce\<close>, each in its plain textual form.
  The hash itself is the \<open>signatureGenerator\<close> of the client.
\<close>

definition signing_input :: "(64 word \<Rightarrow> string) \<Rightarrow> SignatureRequest \<Rightarrow> string" where
  "signing_input ft sr =
     sr_Method sr @ string_of_int (sr_ID sr) @ sr_APIKey sr
       @ (case sr_Params sr of None \<Rightarrow> [] | Some params \<Rightarrow> canonicalize ft params)
       @ string_of_int (sr_Timestamp sr)"

section \<open>Reading a trace\<close>

fun requests_sent :: "event list \<Rightarrow> http_request list" where
  "requests_sent [] = []"
| "requests_sent (HTTPDo r # es) = r # requests_sent es"
| "requests_sent (e # es) = requests_sent es"

fun signatures_asked :: "event list \<Rightarrow> SignatureRequest list" where
  "signatures_asked [] = []"
| "signatures_asked (GenerateSignature sr # es) = sr # signatures_asked es"
| "signatures_asked (e # es) = signatures_asked es"

text \<open>The \<open>params\<close> member of the JSON body of a request, and the names of its keys.\<close>

definition transmitted_params :: "http_request \<Rightarrow> json option" where
  "transmitted_params r = (case req_Body r of None \<Rightarrow> None | Some b \<Rightarrow> member b ''params'')"

definition transmitted_keys :: "http_request \<Rightarrow> string list" where
  "transmitted_keys r = (case transmitted_params r of None \<Rightarrow> [] | Some p \<Rightarrow> members p)"

text \<open>
  The \<open>params\<close> member sent holds what the signed map holds: \<open>null\<close> for the nil map,
  otherwise an object with each key once and exactly the entries of the signed map, key
  and value as they were signed (in whatever order).
\<close>

definition same_params :: "json option \<Rightarrow> (string \<times> json) list option \<Rightarrow> bool" where
  "same_params sent held =
     (case held of
        None \<Rightarrow> sent = Some JNull
      | Some kvs \<Rightarrow>
          (case sent of
             Some (JObject ps) \<Rightarrow> distinct (map fst ps) \<and> set ps = set kvs
           | _ \<Rightarrow> False))"

text \<open>
  The body of request \<open>r\<close> carries, under \<open>id\<close>, \<open>method\<close>, \<open>nonce\<close>, \<open>params\<close> and
  \<open>api_key\<close>, the values the signature request \<open>sr\<close> holds.
\<close>

definition envelope_matches :: "SignatureRequest \<Rightarrow> http_request \<Rightarrow> bool" where
  "envelope_matches sr r =
     (case req_Body r of
        None \<Rightarrow> False
      | Some b \<Rightarrow>
          member b ''id'' = Some (JInt (sr_ID sr))
          \<and> member b ''method'' = Some (JString (sr_Method sr))
          \<and> member b ''nonce'' = Some (JInt (sr_Timestamp sr))
          \<and> same_params (member b ''params'') (sr_Params sr)
          \<and> member b ''api_key'' = Some (JString (sr_APIKey sr)))"

text \<open>
  Parameters as the endpoints build them: each key once, keys in valid UTF-8, and
  every value a number, a boolean, null or a string in valid UTF-8.
\<close>

definition plain_value :: "json \<Rightarrow> bool" where
  "plain_value v =
     (case v of JString s \<Rightarrow> valid_utf8 s | JArray xs \<Rightarrow> False | JObject kvs \<Rightarrow> False
      | _ \<Rightarrow> True)"

definition plain_params :: "(string \<times> json) list \<Rightarrow> bool" where
  "plain_params kvs =
     (distinct (map fst kvs) \<and> list_all (\<lambda>(k, v). valid_utf8 k \<and> plain_value v) kvs)"

text \<open>
  A trace sends as it signed: it sends nothing, or it is exactly one id, one reading of
  the clock, one signature request and one request whose envelope matches the
  signature request.
\<close>

fun sent_as_signed :: "event list \<Rightarrow> bool" where
  "sent_as_signed [GenerateID, ClockNow, GenerateSignature sr, HTTPDo r] = envelope_matches sr r"
| "sent_as_signed tr = (requests_sent tr = [])"

section \<open>A fixed client for concrete runs\<close>

text \<open>
  A client with a fixed clock (1668066540018 ms after the Unix epoch), a fixed id, a
  signature generator that answers \<open>sig\<close>, and a transport that answers status 418 and
  the body \<open>teapot\<close> on a URL that ends in \<open>get-tickers\<close>, and 200 and \<open>ok\<close> elsewhere;
  \<open>teapot\<close> decodes to the code 10003, as in \<open>TestClient_GetTickers_Error\<close>.
\<close>

definition fixedDo :: "http_request \<Rightarrow> error + http_response" where
  "fixedDo r =
     (if req_URL r = ''https://api.crypto.com/v2/exchange/v1/public/get-tickers''
      then Inr \<lparr>StatusCode = 418, res_Body = Inr ''teapot''\<rparr>
      else Inr \<lparr>StatusCode = 200, res_Body = Inr ''ok''\<rparr>)"

definition fixedSignature :: "SignatureRequest \<Rightarrow> error + string" where
  "fixedSignature sr = Inr ''sig''"

definition fixedClient :: Client where
  "fixedClient =
     \<lparr>apiKey = ''k'', secretKey = ''s'', clock = Time 63803663340 18000000, idGenerator = 1,
      signatureGenerator = fixedSignature,
      requester = \<lparr>Do = fixedDo, BaseURL = ''https://api.crypto.com/v2/''\<rparr>\<rparr>"

definition fixedParse :: "string \<Rightarrow> error + (string \<times> string) list" where
  "fixedParse url = Inr []"

definition fixedUnmarshal :: "string \<Rightarrow> error + (string \<times> unit)" where
  "fixedUnmarshal b = (if b = ''teapot'' then Inr (''10003'', ()) else Inr (''0'', ()))"

definition fixedEnv :: "unit env" where
  "fixedEnv = \<lparr>url_Parse = fixedParse, Unmarshal = fixedUnmarshal, codeTable = testCodeTable\<rparr>"

definition noFloatText :: "64 word \<Rightarrow> string" where
  "noFloatText w = []"

definition btcPage0 :: GetDepositHistoryRequest where
  "btcPage0 =
     \<lparr>dh_Currency = ''BTC'', dh_Start = Time 0 0, dh_End = Time 0 0, dh_PageSize = 0,
      dh_Page = 0, dh_Status = []\<rparr>"

text \<open>A request whose currency is the single byte FF, which is no valid UTF-8.\<close>

definition ffCurrency :: GetDepositHistoryRequest where
  "ffCurrency =
     \<lparr>dh_Currency = [CHR 0xFF], dh_Start = Time 0 0, dh_End = Time 0 0, dh_PageSize = 0,
      dh_Page = 0, dh_Status = []\<rparr>"

definition btcWithdrawals :: GetWithdrawalHistoryRequest where
  "btcWithdrawals =
     \<lparr>wh_Currency = ''BTC'', wh_Start = Time 0 0, wh_End = Time 0 0, wh_PageSize = 0,
      wh_Page = 0, wh_Status = []\<rparr>"

section \<open>Properties of the classification\<close>

lemma Int64_10003: "Int64 ''10003'' = Some 10003"
  by (simp add: Int64_def ParseInt_def ParseUint_def digit_val_def)

lemma Int64_empty: "Int64 [] = None"
  by (simp add: Int64_def ParseInt_def)

lemma Int64_not_a_number: "Int64 ''1.5'' = None"
  by (simp add: Int64_def ParseInt_def ParseUint_def digit_val_def)

text \<open>
  C7. For every HTTP status below 400 the classification returns the nil error, whatever
  the response code is: a non-zero code or a code that is no integer is a success.
\<close>

theorem CheckErrorResponse_below_400:
  "statusCode < 400 \<Longrightarrow> CheckErrorResponse tbl statusCode responseCode = None"
  by (simp add: CheckErrorResponse_def)

theorem CheckErrorResponse_below_400_witness:
  "(200::int) < 400 \<and> Int64 ''10003'' = Some 10003 \<and> Int64 ''1.5'' = None
   \<and> CheckErrorResponse testCodeTable 200 ''10003'' = None
   \<and> CheckErrorResponse testCodeTable 200 ''1.5'' = None"
  using CheckErrorResponse_below_400 [of 200 testCodeTable "''10003''"]
    CheckErrorResponse_below_400 [of 200 testCodeTable "''1.5''"]
    Int64_10003 Int64_not_a_number
  by simp

lemma Int64_99999: "Int64 ''99999'' = Some 99999"
  by (simp add: Int64_def ParseInt_def ParseUint_def digit_val_def)

lemma CheckErrorResponse_None_iff:
  "(CheckErrorResponse tbl statusCode responseCode = None) = (statusCode < 400)"
  by (auto simp: CheckErrorResponse_def split: option.splits)

lemma CheckErrorResponse_parsed:
  "statusCode \<ge> 400 \<Longrightarrow> Int64 responseCode = Some code \<Longrightarrow>
   CheckErrorResponse tbl statusCode responseCode =
     Some (ResponseError code statusCode (map_option Sentinel (tbl code)))"
  by (simp add: CheckErrorResponse_def NewResponseError_def)

lemma CheckErrorResponse_unparsed:
  "statusCode \<ge> 400 \<Longrightarrow> Int64 responseCode = None \<Longrightarrow>
   CheckErrorResponse tbl statusCode responseCode =
     Some (ResponseError 0 statusCode (Some (Errorf (''invalid response code: '' @ responseCode))))"
  by (simp add: CheckErrorResponse_def)

text \<open>
  C2, as stated, fails: with status 200 and the non-zero code 10003 the classification
  returns the nil error.
\<close>

theorem success_despite_nonzero_code:
  "\<not> ((CheckErrorResponse testCodeTable 200 ''10003'' = None)
        = ((200::int) < 400 \<and> (''10003'' = [] \<or> Int64 ''10003'' = Some 0)))"
  by (simp add: CheckErrorResponse_None_iff Int64_10003)

text \<open>
  C2, amended. The classification succeeds exactly when the HTTP status is below 400;
  when the status is at least 400 and the response code parses as an integer, it
  returns a \<open>ResponseError\<close> that carries that code and the HTTP status, with the
  mapped sentinel when the table knows the code and with none otherwise.
\<close>

theorem CheckErrorResponse_classification:
  "(CheckErrorResponse tbl statusCode responseCode = None) = (statusCode < 400)
   \<and> (statusCode \<ge> 400 \<longrightarrow> Int64 responseCode = Some code \<longrightarrow>
        (\<exists>e. CheckErrorResponse tbl statusCode responseCode = Some e
             \<and> e = ResponseError code statusCode (map_option Sentinel (tbl code))
             \<and> Code e = code \<and> HTTPStatusCode e = statusCode))"
  by (simp add: CheckErrorResponse_None_iff CheckErrorResponse_parsed)

theorem CheckErrorResponse_classification_witness:
  "(418::int) \<ge> 400 \<and> Int64 ''10003'' = Some 10003 \<and> Int64 ''99999'' = Some 99999
   \<and> CheckErrorResponse testCodeTable 418 ''10003''
       = Some (ResponseError 10003 418 (Some (Sentinel ''ErrIllegalIP'')))
   \<and> CheckErrorResponse testCodeTable 418 ''99999'' = Some (ResponseError 99999 418 None)
   \<and> CheckErrorResponse testCodeTable 200 ''0'' = None"
  using CheckErrorResponse_classification [of testCodeTable 418 "''10003''" 10003]
    CheckErrorResponse_classification [of testCodeTable 418 "''99999''" 99999]
    CheckErrorResponse_classification [of testCodeTable 200 "''0''" 0]
    Int64_10003 Int64_99999
  by (simp add: testCodeTable_def)

text \<open>
  C4. For every HTTP status of at least 400 and every response code that does not parse as
  an integer, the classification returns an error (so not success) that carries the HTTP
  status and the decoding failure; its \<open>Err\<close> is no sentinel, it unwraps to no
  sentinel, and it differs from every error \<open>NewResponseError\<close> builds.
\<close>

theorem CheckErrorResponse_invalid_code:
  assumes "statusCode \<ge> 400" and "Int64 responseCode = None"
  shows "\<exists>e. CheckErrorResponse tbl statusCode responseCode = Some e
     \<and> e = ResponseError 0 statusCode (Some (Errorf (''invalid response code: '' @ responseCode)))
     \<and> HTTPStatusCode e = statusCode
     \<and> (\<forall>kind. Err e \<noteq> Some (Sentinel kind))
     \<and> (\<forall>kind. \<not> errors_Is e kind)
     \<and> (\<forall>st code. e \<noteq> NewResponseError tbl st code)"
proof -
  have "Some (Errorf m) \<noteq> map_option Sentinel x" for m x
    by (cases x) simp_all
  then show ?thesis
    using assms by (simp add: CheckErrorResponse_unparsed NewResponseError_def)
qed

theorem CheckErrorResponse_invalid_code_witness:
  "(418::int) \<ge> 400 \<and> Int64 ''1.5'' = None \<and> Int64 [] = None
   \<and> CheckErrorResponse testCodeTable 418 ''1.5''
       = Some (ResponseError 0 418 (Some (Errorf ''invalid response code: 1.5'')))
   \<and> CheckErrorResponse testCodeTable 418 []
       = Some (ResponseError 0 418 (Some (Errorf ''invalid response code: '')))
   \<and> \<not> errors_Is (ResponseError 0 418 (Some (Errorf ''invalid response code: 1.5''))) ''ErrIllegalIP''"
  using CheckErrorResponse_invalid_code [of 418 "''1.5''" testCodeTable]
    CheckErrorResponse_invalid_code [of 418 "[]" testCodeTable]
    Int64_not_a_number Int64_empty
  by simp

lemma testCodeTable_10003: "testCodeTable 10003 = Some ''ErrIllegalIP''"
  by (simp add: testCodeTable_def)

text \<open>
  C9. When the status is at least 400 and the table maps the parsed code to a sentinel,
  the error the endpoints return (the classification's error, wrapped) satisfies
  \<open>errors.Is\<close> for that sentinel and for no other, and \<open>errors.As\<close> finds the
  \<open>ResponseError\<close> with the numeric code and the HTTP status.
\<close>

theorem known_kind_distinguishable:
  "statusCode \<ge> 400 \<Longrightarrow> Int64 responseCode = Some code \<Longrightarrow> tbl code = Some kind \<Longrightarrow>
   \<exists>e. CheckErrorResponse tbl statusCode responseCode = Some e
     \<and> errors_Is (Wrapf ''error received in response: '' e) kind
     \<and> (\<forall>other. errors_Is (Wrapf ''error received in response: '' e) other = (other = kind))
     \<and> errors_As_ResponseError (Wrapf ''error received in response: '' e) = Some e
     \<and> e = ResponseError code statusCode (Some (Sentinel kind))
     \<and> Code e = code \<and> HTTPStatusCode e = statusCode \<and> Err e = Some (Sentinel kind)"
  by (auto simp: CheckErrorResponse_parsed)

lemma GetTickers_teapot:
  "GetTickers fixedEnv fixedClient ''some instrument'' =
     ([HTTPDo \<lparr>req_Method = ''GET'',
                req_URL = ''https://api.crypto.com/v2/exchange/v1/public/get-tickers'',
                req_Query = [(''instrument_name'', ''some instrument'')],
                req_Header = [(''Content-Type'', ''application/json'')],
                req_Body = None\<rparr>],
      Inl (Wrapf ''error received in response: ''
             (ResponseError 10003 418 (Some (Sentinel ''ErrIllegalIP'')))))"
  by (simp add: GetTickers_def NewRequest_def fixedEnv_def fixedClient_def fixedParse_def
      fixedDo_def fixedUnmarshal_def V1_def methodGetTicker_def Header_Set_def Encode_def
      send_and_decode_def CheckErrorResponse_def Int64_10003 NewResponseError_def
      testCodeTable_def)

theorem known_kind_distinguishable_witness:
  "(418::int) \<ge> 400 \<and> Int64 ''10003'' = Some 10003 \<and> testCodeTable 10003 = Some ''ErrIllegalIP''
   \<and> CheckErrorResponse testCodeTable 418 ''10003''
       = Some (ResponseError 10003 418 (Some (Sentinel ''ErrIllegalIP'')))
   \<and> errors_Is (Wrapf ''error received in response: ''
         (ResponseError 10003 418 (Some (Sentinel ''ErrIllegalIP'')))) ''ErrIllegalIP''
   \<and> \<not> errors_Is (Wrapf ''error received in response: ''
         (ResponseError 10003 418 (Some (Sentinel ''ErrIllegalIP'')))) ''ErrInsufficientBalance''
   \<and> snd (GetTickers fixedEnv fixedClient ''some instrument'')
       = Inl (Wrapf ''error received in response: ''
               (ResponseError 10003 418 (Some (Sentinel ''ErrIllegalIP''))))"
  using known_kind_distinguishable [of 418 "''10003''" 10003 testCodeTable "''ErrIllegalIP''"]
    Int64_10003 GetTickers_teapot testCodeTable_10003
  by simp

section \<open>Strings in JSON\<close>

lemma json_string_valid: "valid_utf8 s \<Longrightarrow> json_string s = s"
  by (induction s rule: json_string.induct)
     (auto simp: json_string.simps valid_utf8.simps split: if_splits)

lemma rune_len_ascii: "(of_char c :: nat) < 128 \<Longrightarrow> rune_len (c # cs) = 1"
  by (simp add: rune_len_def)

lemma valid_utf8_ascii: "list_all (\<lambda>c. (of_char c :: nat) < 128) s \<Longrightarrow> valid_utf8 s"
  by (induction s) (simp_all add: rune_len_ascii valid_utf8.simps)

lemma json_string_ascii: "list_all (\<lambda>c. (of_char c :: nat) < 128) s \<Longrightarrow> json_string s = s"
  by (simp add: json_string_valid valid_utf8_ascii)

lemma json_string_FF: "json_string [CHR 0xFF] = [CHR 0xEF, CHR 0xBF, CHR 0xBD]"
  by (simp add: json_string.simps rune_len_def)

lemma not_valid_utf8_FF: "\<not> valid_utf8 [CHR 0xFF]"
  by (simp add: valid_utf8.simps rune_len_def)

lemma marshal_value_plain: "plain_value v \<Longrightarrow> marshal_value v = v"
  by (cases v) (simp_all add: plain_value_def json_string_valid)

lemma marshal_plain_params:
  assumes "plain_params kvs"
  shows "marshal_value (JObject kvs) = JObject (sort_key fst kvs)"
proof -
  have "map (\<lambda>(k, v). (json_string k, marshal_value v)) (sort_key fst kvs) = sort_key fst kvs"
    using assms
    by (intro map_idI)
       (auto simp: plain_params_def list_all_iff json_string_valid marshal_value_plain)
  then show ?thesis by simp
qed

lemma plain_params_update:
  "plain_params al \<Longrightarrow> valid_utf8 k \<Longrightarrow> plain_value v \<Longrightarrow> plain_params (AList.update k v al)"
  by (induction al) (auto simp: plain_params_def dom_update)

lemma plain_params_update_if:
  "plain_params al \<Longrightarrow> valid_utf8 k \<Longrightarrow> (b \<Longrightarrow> plain_value v) \<Longrightarrow>
   plain_params (if b then AList.update k v al else al)"
  by (simp add: plain_params_update)

lemma plain_params_Nil: "plain_params []"
  by (simp add: plain_params_def)

section \<open>Properties of the JSON form of the envelope\<close>

lemma json_Marshal_Inr_iff:
  "(\<exists>b. json_Marshal body = Inr b)
     = (case Params body of None \<Rightarrow> True | Some kvs \<Rightarrow> supported (JObject kvs))"
  by (simp add: json_Marshal_def)

lemma json_Marshal_names:
  "json_Marshal body = Inr b \<Longrightarrow>
   members b = [''id'', ''method'', ''nonce'', ''params'']
     @ (if Signature body \<noteq> [] then [''sig''] else [])
     @ (if APIKey body \<noteq> [] then [''api_key''] else [])
     @ [''version'']"
  by (auto simp: json_Marshal_def members_def split: if_splits)

lemma json_Marshal_member:
  assumes "json_Marshal body = Inr b"
  shows "member b ''id'' = Some (JInt (ID body))"
    and "member b ''method'' = Some (JString (json_string (Method body)))"
    and "member b ''nonce'' = Some (JInt (Nonce body))"
    and "member b ''params'' = Some (marshal_Params (Params body))"
    and "member b ''sig''
           = (if Signature body = [] then None
              else Some (JString (json_string (Signature body))))"
    and "member b ''api_key''
           = (if APIKey body = [] then None else Some (JString (json_string (APIKey body))))"
    and "member b ''version'' = Some (JString (json_string (Version body)))"
  using assms by (auto simp: json_Marshal_def member_def split: if_splits)

text \<open>
  C8. \<open>json.Marshal\<close> of a request succeeds unless a parameter value is unsupported, and
  in the JSON object it writes the members \<open>sig\<close> and \<open>api_key\<close> are present exactly
  when the field is not empty, while \<open>version\<close> is always present, also when empty, and
  so are \<open>id\<close>, \<open>method\<close>, \<open>nonce\<close> and \<open>params\<close>. The strings written are the fields
  passed through \<open>json_string\<close>.
\<close>

theorem envelope_members:
  "((\<exists>j. json_Marshal body = Inr j)
      = (case Params body of None \<Rightarrow> True | Some kvs \<Rightarrow> supported (JObject kvs)))
   \<and> (json_Marshal body = Inr b \<longrightarrow>
        (''sig'' \<in> set (members b)) = (Signature body \<noteq> [])
        \<and> (''api_key'' \<in> set (members b)) = (APIKey body \<noteq> [])
        \<and> ''version'' \<in> set (members b)
        \<and> member b ''version'' = Some (JString (json_string (Version body)))
        \<and> ''id'' \<in> set (members b) \<and> ''method'' \<in> set (members b)
        \<and> ''nonce'' \<in> set (members b) \<and> ''params'' \<in> set (members b)
        \<and> member b ''sig''
            = (if Signature body = [] then None
               else Some (JString (json_string (Signature body))))
        \<and> member b ''api_key''
            = (if APIKey body = [] then None
               else Some (JString (json_string (APIKey body)))))"
  by (simp add: json_Marshal_Inr_iff json_Marshal_names json_Marshal_member)

section \<open>Traces of the requester and of the private endpoints\<close>

lemma doRequest_sent:
  "fst (doRequest env r httpMethod body method) = []
   \<or> (\<exists>b q. json_Marshal body = Inr b
          \<and> fst (doRequest env r httpMethod body method) =
              [\<lparr>req_Method = httpMethod,
                req_URL = BaseURL r @ (if Version body \<noteq> [] then Version body else V1) @ method,
                req_Query = q,
                req_Header = [(''Content-Type'', ''application/json'')],
                req_Body = Some b\<rparr>])"
  by (auto simp: doRequest_def NewRequest_def Header_Set_def Let_def
      split: sum.splits prod.splits)

lemma sign_and_post_trace:
  fixes env :: "'r env"
  defines "sr \<equiv> \<lambda>c method params.
     \<lparr>sr_APIKey = apiKey c, sr_SecretKey = secretKey c, sr_ID = idGenerator c,
      sr_Method = method, sr_Timestamp = UnixMilli (clock c), sr_Params = Some params\<rparr>"
  shows "fst (sign_and_post env c method version params)
           = [GenerateID, ClockNow, GenerateSignature (sr c method params)]
   \<or> (\<exists>sg b r. signatureGenerator c (sr c method params) = Inr sg
         \<and> json_Marshal \<lparr>ID = idGenerator c, Method = method, Nonce = UnixMilli (clock c),
                          Params = Some params, Signature = sg, APIKey = apiKey c,
                          Version = version\<rparr> = Inr b
         \<and> req_Method r = ''POST'' \<and> req_Body r = Some b
         \<and> fst (sign_and_post env c method version params)
             = [GenerateID, ClockNow, GenerateSignature (sr c method params), HTTPDo r])"
proof (cases "signatureGenerator c (sr c method params)")
  case (Inl err)
  then show ?thesis
    by (simp add: sign_and_post_def sr_def Let_def)
next
  case (Inr sg)
  let ?body = "\<lparr>ID = idGenerator c, Method = method, Nonce = UnixMilli (clock c),
                 Params = Some params, Signature = sg, APIKey = apiKey c, Version = version\<rparr>"
  have tr: "fst (sign_and_post env c method version params)
      = [GenerateID, ClockNow, GenerateSignature (sr c method params)]
          @ map HTTPDo (fst (Post env (requester c) ?body method))"
    using Inr
    by (auto simp: sign_and_post_def sr_def Let_def split: prod.splits sum.splits option.splits)
  from doRequest_sent [of env "requester c" "''POST''" ?body "method"]
  show ?thesis
  proof
    assume "fst (doRequest env (requester c) ''POST'' ?body method) = []"
    with tr show ?thesis by (simp add: Post_def)
  next
    assume "\<exists>b q. json_Marshal ?body = Inr b
          \<and> fst (doRequest env (requester c) ''POST'' ?body method) =
              [\<lparr>req_Method = ''POST'',
                req_URL = BaseURL (requester c)
                  @ (if Version ?body \<noteq> [] then Version ?body else V1) @ method,
                req_Query = q,
                req_Header = [(''Content-Type'', ''application/json'')],
                req_Body = Some b\<rparr>]"
    then obtain b q where b: "json_Marshal ?body = Inr b"
      and sent: "fst (Post env (requester c) ?body method) =
              [\<lparr>req_Method = ''POST'',
                req_URL = BaseURL (requester c)
                  @ (if Version ?body \<noteq> [] then Version ?body else V1) @ method,
                req_Query = q,
                req_Header = [(''Content-Type'', ''application/json'')],
                req_Body = Some b\<rparr>]"
      by (auto simp: Post_def)
    show ?thesis
      using Inr b tr sent by auto
  qed
qed

lemma distinct_keys_sort_key:
  "distinct (map fst kvs) \<Longrightarrow> distinct (map fst (sort_key fst kvs))"
  by (simp add: distinct_map)

lemma sign_and_post_sent_as_signed:
  assumes "apiKey c \<noteq> []" and "valid_utf8 (apiKey c)" and "valid_utf8 meth"
    and "plain_params params"
  shows "sent_as_signed (fst (sign_and_post env c meth ver params))"
proof -
  let ?sr = "\<lparr>sr_APIKey = apiKey c, sr_SecretKey = secretKey c, sr_ID = idGenerator c,
      sr_Method = meth, sr_Timestamp = UnixMilli (clock c), sr_Params = Some params\<rparr>"
  from sign_and_post_trace [of env c meth ver params]
  show ?thesis
  proof
    assume "fst (sign_and_post env c meth ver params)
           = [GenerateID, ClockNow, GenerateSignature ?sr]"
    then show ?thesis by simp
  next
    assume "\<exists>sg b r. signatureGenerator c ?sr = Inr sg
         \<and> json_Marshal \<lparr>ID = idGenerator c, Method = meth, Nonce = UnixMilli (clock c),
                          Params = Some params, Signature = sg, APIKey = apiKey c,
                          Version = ver\<rparr> = Inr b
         \<and> req_Method r = ''POST'' \<and> req_Body r = Some b
         \<and> fst (sign_and_post env c meth ver params)
             = [GenerateID, ClockNow, GenerateSignature ?sr, HTTPDo r]"
    then obtain sg b r where
      b: "json_Marshal \<lparr>ID = idGenerator c, Method = meth, Nonce = UnixMilli (clock c),
                          Params = Some params, Signature = sg, APIKey = apiKey c,
                          Version = ver\<rparr> = Inr b"
      and r: "req_Body r = Some b"
      and tr: "fst (sign_and_post env c meth ver params)
             = [GenerateID, ClockNow, GenerateSignature ?sr, HTTPDo r]"
      by blast
    have mp: "marshal_Params (Some params) = JObject (sort_key fst params)"
      using marshal_plain_params [OF assms(4)] by (simp only: marshal_Params_def option.case)
    have "distinct (map fst params)"
      using assms(4) by (simp add: plain_params_def)
    then have p: "same_params (member b ''params'') (Some params)"
      using json_Marshal_member(4) [OF b]
      by (simp add: same_params_def mp distinct_keys_sort_key del: marshal_value.simps)
    have "envelope_matches ?sr r"
      using assms(1-3) r p json_Marshal_member [OF b]
      by (simp add: envelope_matches_def json_string_valid)
    with tr show ?thesis by simp
  qed
qed

subsection \<open>The parameters the private endpoints build\<close>

lemma keys_valid:
  shows "valid_utf8 ''currency''" and "valid_utf8 ''page_size''" and "valid_utf8 ''start_ts''"
    and "valid_utf8 ''end_ts''" and "valid_utf8 ''page''" and "valid_utf8 ''status''"
    and "valid_utf8 ''timeframe''" and "valid_utf8 ''limit''" and "valid_utf8 ''end_time''"
    and "valid_utf8 ''client_wid''" and "valid_utf8 ''amount''" and "valid_utf8 ''address''"
    and "valid_utf8 ''address_tag''" and "valid_utf8 ''network_id''"
  by (simp_all add: valid_utf8_ascii)

lemma methods_valid:
  shows "valid_utf8 methodGetDepositHistory" and "valid_utf8 methodGetWithdrawalHistory"
    and "valid_utf8 methodGetDepositAddress" and "valid_utf8 methodUserBalanceHistory"
    and "valid_utf8 methodCreateWithdrawal"
  by (simp_all add: valid_utf8_ascii methodGetDepositHistory_def
      methodGetWithdrawalHistory_def methodGetDepositAddress_def methodUserBalanceHistory_def
      methodCreateWithdrawal_def)

lemma GetDepositHistory_params_plain:
  "valid_utf8 (dh_Currency req) \<Longrightarrow> valid_utf8 (dh_Status req) \<Longrightarrow>
   plain_params (GetDepositHistory_params req)"
  unfolding GetDepositHistory_params_def Let_def
  by (intro plain_params_update_if plain_params_update plain_params_Nil)
     (simp_all add: plain_value_def keys_valid)

lemma GetWithdrawalHistory_params_plain:
  "valid_utf8 (wh_Currency req) \<Longrightarrow> valid_utf8 (wh_Status req) \<Longrightarrow>
   plain_params (GetWithdrawalHistory_params req)"
  unfolding GetWithdrawalHistory_params_def Let_def
  by (intro plain_params_update_if plain_params_update plain_params_Nil)
     (simp_all add: plain_value_def keys_valid)

lemma GetDepositAddress_params_plain:
  "valid_utf8 (da_Currency req) \<Longrightarrow> plain_params (GetDepositAddress_params req)"
  unfolding GetDepositAddress_params_def Let_def
  by (intro plain_params_update_if plain_params_update plain_params_Nil)
     (simp_all add: plain_value_def keys_valid)

lemma UserBalanceHistory_params_plain:
  "valid_utf8 (ub_Timeframe req) \<Longrightarrow> plain_params (UserBalanceHistory_params req)"
  unfolding UserBalanceHistory_params_def Let_def
  by (intro plain_params_update_if plain_params_update plain_params_Nil)
     (simp_all add: plain_value_def keys_valid)

lemma CreateWithdrawal_params_plain:
  "valid_utf8 (cw_Currency req) \<Longrightarrow> valid_utf8 (cw_ClientWid req) \<Longrightarrow>
   valid_utf8 (cw_Address req) \<Longrightarrow> valid_utf8 (cw_AddressTag req) \<Longrightarrow>
   valid_utf8 (cw_NetworkId req) \<Longrightarrow> plain_params (CreateWithdrawal_params req)"
  unfolding CreateWithdrawal_params_def Let_def
  by (intro plain_params_update_if plain_params_update plain_params_Nil)
     (simp_all add: plain_value_def keys_valid)

text \<open>
  C6, amended. For the private endpoints \<open>GetDepositHistory\<close>, \<open>GetWithdrawalHistory\<close>,
  \<open>GetDepositAddress\<close>, \<open>UserBalanceHistory\<close> and \<open>CreateWithdrawal\<close>, called on a
  client whose API key is not empty (\<open>UpdateConfig\<close> admits no other) and valid UTF-8,
  with a request whose string fields are valid UTF-8: whenever a request is sent, the
  call asked for exactly one signature before, and the \<open>id\<close>, \<open>method\<close>, \<open>nonce\<close>,
  \<open>params\<close> and \<open>api_key\<close> members of the body sent are the values of that signature
  request.
\<close>

theorem private_envelope_as_signed:
  fixes env :: "'r env"
  assumes "apiKey c \<noteq> []" and "valid_utf8 (apiKey c)"
  shows "(valid_utf8 (dh_Currency dh) \<and> valid_utf8 (dh_Status dh) \<longrightarrow>
            sent_as_signed (fst (GetDepositHistory env c dh)))
    \<and> (valid_utf8 (wh_Currency wh) \<and> valid_utf8 (wh_Status wh) \<longrightarrow>
            sent_as_signed (fst (GetWithdrawalHistory env c wh)))
    \<and> (valid_utf8 (da_Currency da) \<longrightarrow>
            sent_as_signed (fst (GetDepositAddress env c da)))
    \<and> (valid_utf8 (ub_Timeframe ub) \<longrightarrow>
            sent_as_signed (fst (UserBalanceHistory env c ub)))
    \<and> (valid_utf8 (cw_Currency cw) \<and> valid_utf8 (cw_ClientWid cw)
        \<and> valid_utf8 (cw_Address cw) \<and> valid_utf8 (cw_AddressTag cw)
        \<and> valid_utf8 (cw_NetworkId cw) \<longrightarrow>
            sent_as_signed (fst (CreateWithdrawal env c cw)))"
  using assms
  by (simp add: GetDepositHistory_def GetWithdrawalHistory_def GetDepositAddress_def
      UserBalanceHistory_def CreateWithdrawal_def sign_and_post_sent_as_signed methods_valid
      GetDepositHistory_params_plain GetWithdrawalHistory_params_plain
      GetDepositAddress_params_plain UserBalanceHistory_params_plain
      CreateWithdrawal_params_plain)

lemma members_marshal_Params:
  "set (members (marshal_Params (Some params))) = json_string ` fst ` set params"
  by (force simp: marshal_Params_def members_def image_iff)

lemma keys_valid_update_if:
  "list_all (\<lambda>kv. valid_utf8 (fst kv)) al \<Longrightarrow> valid_utf8 k \<Longrightarrow>
   list_all (\<lambda>kv. valid_utf8 (fst kv)) (if b then AList.update k v al else al)"
  by (induction al) auto

lemma keys_valid_update:
  "list_all (\<lambda>kv. valid_utf8 (fst kv)) al \<Longrightarrow> valid_utf8 k \<Longrightarrow>
   list_all (\<lambda>kv. valid_utf8 (fst kv)) (AList.update k v al)"
  by (induction al) auto

lemma history_params_keys_valid:
  shows "list_all (\<lambda>kv. valid_utf8 (fst kv)) (GetDepositHistory_params dh)"
    and "list_all (\<lambda>kv. valid_utf8 (fst kv)) (GetWithdrawalHistory_params wh)"
  unfolding GetDepositHistory_params_def GetWithdrawalHistory_params_def Let_def
  by (intro keys_valid_update_if keys_valid_update; simp add: keys_valid)+

lemma json_string_keys:
  assumes "list_all (\<lambda>kv. valid_utf8 (fst kv)) params"
  shows "json_string ` fst ` set params = fst ` set params"
  using assms by (force simp: list_all_iff json_string_valid image_iff)

lemma sign_and_post_transmitted:
  "list_all (\<lambda>r. transmitted_params r = Some (marshal_Params (Some params)))
     (requests_sent (fst (sign_and_post env c method version params)))"
proof -
  from sign_and_post_trace [of env c "method" "version" params]
  show ?thesis
  proof
    assume "fst (sign_and_post env c method version params)
           = [GenerateID, ClockNow, GenerateSignature
                \<lparr>sr_APIKey = apiKey c, sr_SecretKey = secretKey c, sr_ID = idGenerator c,
                  sr_Method = method, sr_Timestamp = UnixMilli (clock c),
                  sr_Params = Some params\<rparr>]"
    then show ?thesis by simp
  next
    assume "\<exists>sg b r. signatureGenerator c
               \<lparr>sr_APIKey = apiKey c, sr_SecretKey = secretKey c, sr_ID = idGenerator c,
                 sr_Method = method, sr_Timestamp = UnixMilli (clock c),
                 sr_Params = Some params\<rparr> = Inr sg
         \<and> json_Marshal \<lparr>ID = idGenerator c, Method = method, Nonce = UnixMilli (clock c),
                          Params = Some params, Signature = sg, APIKey = apiKey c,
                          Version = version\<rparr> = Inr b
         \<and> req_Method r = ''POST'' \<and> req_Body r = Some b
         \<and> fst (sign_and_post env c method version params)
             = [GenerateID, ClockNow, GenerateSignature
                  \<lparr>sr_APIKey = apiKey c, sr_SecretKey = secretKey c, sr_ID = idGenerator c,
                    sr_Method = method, sr_Timestamp = UnixMilli (clock c),
                    sr_Params = Some params\<rparr>, HTTPDo r]"
    then obtain sg b r where
      b: "json_Marshal \<lparr>ID = idGenerator c, Method = method, Nonce = UnixMilli (clock c),
                          Params = Some params, Signature = sg, APIKey = apiKey c,
                          Version = version\<rparr> = Inr b"
      and r: "req_Body r = Some b"
      and tr: "requests_sent (fst (sign_and_post env c method version params)) = [r]"
      by force
    show ?thesis
      using r tr json_Marshal_member(4) [OF b] by (simp add: transmitted_params_def)
  qed
qed

lemma sign_and_post_signatures:
  "signatures_asked (fst (sign_and_post env c method version params))
     = [\<lparr>sr_APIKey = apiKey c, sr_SecretKey = secretKey c, sr_ID = idGenerator c,
         sr_Method = method, sr_Timestamp = UnixMilli (clock c), sr_Params = Some params\<rparr>]"
  using sign_and_post_trace [of env c "method" "version" params] by auto

lemma sign_and_post_keys:
  "list_all (\<lambda>r. set (transmitted_keys r) = json_string ` fst ` set params)
     (requests_sent (fst (sign_and_post env c method version params)))"
  using sign_and_post_transmitted [of params env c "method" "version"]
  by (auto simp: list_all_iff transmitted_keys_def members_marshal_Params)

section \<open>The parameters of the two history endpoints\<close>

lemma map_of_update_if:
  "map_of (if b then AList.update k v al else al) k' =
     (if b \<and> k' = k then Some v else map_of al k')"
  by (simp add: update_conv')

lemma GetDepositHistory_params_at:
  shows "map_of (GetDepositHistory_params req) ''page'' = Some (JInt (dh_Page req))"
    and "map_of (GetDepositHistory_params req) ''currency'' =
           (if dh_Currency req = [] then None else Some (JString (dh_Currency req)))"
    and "map_of (GetDepositHistory_params req) ''page_size'' =
           (if dh_PageSize req = 0 then None else Some (JInt (dh_PageSize req)))"
    and "map_of (GetDepositHistory_params req) ''start_ts'' =
           (if IsZero (dh_Start req) then None else Some (JInt (UnixMilli (dh_Start req))))"
    and "map_of (GetDepositHistory_params req) ''end_ts'' =
           (if IsZero (dh_End req) then None else Some (JInt (UnixMilli (dh_End req))))"
    and "map_of (GetDepositHistory_params req) ''status'' =
           (if dh_Status req = [] then None else Some (JString (dh_Status req)))"
  by (simp_all add: GetDepositHistory_params_def Let_def map_of_update_if update_conv')

lemma GetWithdrawalHistory_params_at:
  shows "map_of (GetWithdrawalHistory_params req) ''page'' = Some (JInt (wh_Page req))"
    and "map_of (GetWithdrawalHistory_params req) ''currency'' =
           (if wh_Currency req = [] then None else Some (JString (wh_Currency req)))"
    and "map_of (GetWithdrawalHistory_params req) ''page_size'' =
           (if wh_PageSize req = 0 then None else Some (JInt (wh_PageSize req)))"
    and "map_of (GetWithdrawalHistory_params req) ''start_ts'' =
           (if IsZero (wh_Start req) then None else Some (JInt (UnixMilli (wh_Start req))))"
    and "map_of (GetWithdrawalHistory_params req) ''end_ts'' =
           (if IsZero (wh_End req) then None else Some (JInt (UnixMilli (wh_End req))))"
    and "map_of (GetWithdrawalHistory_params req) ''status'' =
           (if wh_Status req = [] then None else Some (JString (wh_Status req)))"
  by (simp_all add: GetWithdrawalHistory_params_def Let_def map_of_update_if update_conv')

lemma key_absent_iff: "(k \<notin> fst ` set kvs) = (map_of kvs k = None)"
  by (simp add: map_of_eq_None_iff)

text \<open>
  C3. \<open>GetDepositHistory\<close> and \<open>GetWithdrawalHistory\<close> with a page size below 0 or
  above 200 return an \<open>InvalidParameterError\<close> for \<open>req.PageSize\<close> and do nothing to
  the outside: no id, no clock, no signature, no request. With page size 0 no request
  sent has a key \<open>page_size\<close> among its \<open>params\<close>, and the signed map has none.
\<close>

theorem page_size_bounds:
  fixes env :: "'r env"
  shows "(dh_PageSize dh < 0 \<or> 200 < dh_PageSize dh \<longrightarrow>
            fst (GetDepositHistory env c dh) = []
            \<and> (\<exists>reason. snd (GetDepositHistory env c dh)
                  = Inl (InvalidParameterError ''req.PageSize'' reason)))
    \<and> (wh_PageSize wh < 0 \<or> 200 < wh_PageSize wh \<longrightarrow>
            fst (GetWithdrawalHistory env c wh) = []
            \<and> (\<exists>reason. snd (GetWithdrawalHistory env c wh)
                  = Inl (InvalidParameterError ''req.PageSize'' reason)))
    \<and> (dh_PageSize dh = 0 \<longrightarrow>
          list_all (\<lambda>r. ''page_size'' \<notin> set (transmitted_keys r))
            (requests_sent (fst (GetDepositHistory env c dh)))
          \<and> list_all (\<lambda>sr. sr_Params sr = Some (GetDepositHistory_params dh))
              (signatures_asked (fst (GetDepositHistory env c dh)))
          \<and> map_of (GetDepositHistory_params dh) ''page_size'' = None)
    \<and> (wh_PageSize wh = 0 \<longrightarrow>
          list_all (\<lambda>r. ''page_size'' \<notin> set (transmitted_keys r))
            (requests_sent (fst (GetWithdrawalHistory env c wh)))
          \<and> list_all (\<lambda>sr. sr_Params sr = Some (GetWithdrawalHistory_params wh))
              (signatures_asked (fst (GetWithdrawalHistory env c wh)))
          \<and> map_of (GetWithdrawalHistory_params wh) ''page_size'' = None)"
proof -
  have keys: "list_all (\<lambda>r. ''page_size'' \<notin> set (transmitted_keys r))
                (requests_sent (fst (sign_and_post env c m v params)))"
    if "map_of params ''page_size'' = None" and "list_all (\<lambda>kv. valid_utf8 (fst kv)) params"
    for m v params
    using sign_and_post_keys [of params env c m v] that
    by (simp add: list_all_iff key_absent_iff json_string_keys)
  have d: "dh_PageSize dh = 0 \<Longrightarrow> map_of (GetDepositHistory_params dh) ''page_size'' = None"
    by (simp add: GetDepositHistory_params_at)
  have w: "wh_PageSize wh = 0 \<Longrightarrow> map_of (GetWithdrawalHistory_params wh) ''page_size'' = None"
    by (simp add: GetWithdrawalHistory_params_at)
  show ?thesis
    using d w
    by (auto simp: GetDepositHistory_def GetWithdrawalHistory_def keys
        sign_and_post_signatures history_params_keys_valid)
qed

section \<open>Concrete runs\<close>

lemma btcPage0_params:
  "GetDepositHistory_params btcPage0 = [(''currency'', JString ''BTC''), (''page'', JInt 0)]"
  by (simp add: GetDepositHistory_params_def btcPage0_def IsZero_def)

lemma btcPage0_PageSize: "dh_PageSize btcPage0 = 0"
  by (simp add: btcPage0_def)

lemma UnixMilli_fixed: "UnixMilli (clock fixedClient) = 1668066540018"
  by (simp add: UnixMilli_def fixedClient_def)

lemma GetDepositHistory_fixed:
  "GetDepositHistory fixedEnv fixedClient btcPage0 =
     ([GenerateID, ClockNow,
       GenerateSignature
         \<lparr>sr_APIKey = ''k'', sr_SecretKey = ''s'', sr_ID = 1,
          sr_Method = ''private/get-deposit-history'', sr_Timestamp = 1668066540018,
          sr_Params = Some [(''currency'', JString ''BTC''), (''page'', JInt 0)]\<rparr>,
       HTTPDo
         \<lparr>req_Method = ''POST'',
          req_URL = ''https://api.crypto.com/v2/exchange/v1/private/get-deposit-history'',
          req_Query = [],
          req_Header = [(''Content-Type'', ''application/json'')],
          req_Body = Some (JObject
            [(''id'', JInt 1),
             (''method'', JString ''private/get-deposit-history''),
             (''nonce'', JInt 1668066540018),
             (''params'', JObject [(''currency'', JString ''BTC''), (''page'', JInt 0)]),
             (''sig'', JString ''sig''), (''api_key'', JString ''k''),
             (''version'', JString [])])\<rparr>],
      Inr ())"
  by (simp add: GetDepositHistory_def btcPage0_params sign_and_post_def UnixMilli_fixed Let_def
      Post_def doRequest_def json_Marshal_def marshal_Params_def NewRequest_def Header_Set_def
      V1_def methodGetDepositHistory_def CheckErrorResponse_def json_string_ascii
      btcPage0_PageSize fixedClient_def fixedEnv_def fixedSignature_def fixedParse_def
      fixedDo_def fixedUnmarshal_def UnixMilli_def)

lemma btcWithdrawals_params:
  "GetWithdrawalHistory_params btcWithdrawals = [(''currency'', JString ''BTC''), (''page'', JInt 0)]"
  by (simp add: GetWithdrawalHistory_params_def btcWithdrawals_def IsZero_def)

lemma btcWithdrawals_PageSize: "wh_PageSize btcWithdrawals = 0"
  by (simp add: btcWithdrawals_def)

lemma GetWithdrawalHistory_fixed:
  "GetWithdrawalHistory fixedEnv fixedClient btcWithdrawals =
     ([GenerateID, ClockNow,
       GenerateSignature
         \<lparr>sr_APIKey = ''k'', sr_SecretKey = ''s'', sr_ID = 1,
          sr_Method = ''private/get-withdrawal-history'', sr_Timestamp = 1668066540018,
          sr_Params = Some [(''currency'', JString ''BTC''), (''page'', JInt 0)]\<rparr>,
       HTTPDo
         \<lparr>req_Method = ''POST'',
          req_URL = ''https://api.crypto.com/v2/exchange/v1/private/get-withdrawal-history'',
          req_Query = [],
          req_Header = [(''Content-Type'', ''application/json'')],
          req_Body = Some (JObject
            [(''id'', JInt 1),
             (''method'', JString ''private/get-withdrawal-history''),
             (''nonce'', JInt 1668066540018),
             (''params'', JObject [(''currency'', JString ''BTC''), (''page'', JInt 0)]),
             (''sig'', JString ''sig''), (''api_key'', JString ''k''),
             (''version'', JString [])])\<rparr>],
      Inr ())"
  by (simp add: GetWithdrawalHistory_def btcWithdrawals_params sign_and_post_def Let_def
      Post_def doRequest_def json_Marshal_def marshal_Params_def NewRequest_def Header_Set_def
      V1_def methodGetWithdrawalHistory_def CheckErrorResponse_def json_string_ascii
      btcWithdrawals_PageSize fixedClient_def fixedEnv_def fixedSignature_def fixedParse_def
      fixedDo_def fixedUnmarshal_def UnixMilli_def)

lemma fixed_preflight:
  shows "GetDepositHistory fixedEnv fixedClient (btcPage0\<lparr>dh_PageSize := - 1\<rparr>)
           = ([], Inl (InvalidParameterError ''req.PageSize'' ''cannot be less than 0''))"
    and "GetDepositHistory fixedEnv fixedClient (btcPage0\<lparr>dh_PageSize := 201\<rparr>)
           = ([], Inl (InvalidParameterError ''req.PageSize'' ''cannot be greater than 200''))"
    and "GetWithdrawalHistory fixedEnv fixedClient (btcWithdrawals\<lparr>wh_PageSize := - 1\<rparr>)
           = ([], Inl (InvalidParameterError ''req.PageSize'' ''cannot be less than 0''))"
    and "GetWithdrawalHistory fixedEnv fixedClient (btcWithdrawals\<lparr>wh_PageSize := 201\<rparr>)
           = ([], Inl (InvalidParameterError ''req.PageSize'' ''cannot be greater than 200''))"
  by (simp_all add: GetDepositHistory_def GetWithdrawalHistory_def)

theorem page_size_bounds_witness:
  "dh_PageSize (btcPage0\<lparr>dh_PageSize := - 1\<rparr>) < 0
   \<and> fst (GetDepositHistory fixedEnv fixedClient (btcPage0\<lparr>dh_PageSize := - 1\<rparr>)) = []
   \<and> 200 < wh_PageSize (btcWithdrawals\<lparr>wh_PageSize := 201\<rparr>)
   \<and> fst (GetWithdrawalHistory fixedEnv fixedClient (btcWithdrawals\<lparr>wh_PageSize := 201\<rparr>)) = []
   \<and> dh_PageSize btcPage0 = 0 \<and> wh_PageSize btcWithdrawals = 0
   \<and> map transmitted_keys (requests_sent (fst (GetDepositHistory fixedEnv fixedClient btcPage0)))
       = [[''currency'', ''page'']]
   \<and> map transmitted_keys
         (requests_sent (fst (GetWithdrawalHistory fixedEnv fixedClient btcWithdrawals)))
       = [[''currency'', ''page'']]
   \<and> list_all (\<lambda>r. ''page_size'' \<notin> set (transmitted_keys r))
         (requests_sent (fst (GetDepositHistory fixedEnv fixedClient btcPage0)))
   \<and> list_all (\<lambda>r. ''page_size'' \<notin> set (transmitted_keys r))
         (requests_sent (fst (GetWithdrawalHistory fixedEnv fixedClient btcWithdrawals)))"
  using page_size_bounds [of "btcPage0\<lparr>dh_PageSize := - 1\<rparr>" fixedEnv fixedClient
      "btcWithdrawals\<lparr>wh_PageSize := 201\<rparr>"]
    page_size_bounds [of btcPage0 fixedEnv fixedClient btcWithdrawals]
    btcPage0_PageSize btcWithdrawals_PageSize
  by (simp add: GetDepositHistory_fixed GetWithdrawalHistory_fixed transmitted_keys_def
      transmitted_params_def member_def members_def btcPage0_params btcWithdrawals_params)

lemma ffCurrency_params:
  "GetDepositHistory_params ffCurrency = [(''currency'', JString [CHR 0xFF]), (''page'', JInt 0)]"
  by (simp add: GetDepositHistory_params_def ffCurrency_def IsZero_def)

lemma ffCurrency_PageSize: "dh_PageSize ffCurrency = 0"
  by (simp add: ffCurrency_def)

lemma GetDepositHistory_ffCurrency:
  "GetDepositHistory fixedEnv fixedClient ffCurrency =
     ([GenerateID, ClockNow,
       GenerateSignature
         \<lparr>sr_APIKey = ''k'', sr_SecretKey = ''s'', sr_ID = 1,
          sr_Method = ''private/get-deposit-history'', sr_Timestamp = 1668066540018,
          sr_Params = Some [(''currency'', JString [CHR 0xFF]), (''page'', JInt 0)]\<rparr>,
       HTTPDo
         \<lparr>req_Method = ''POST'',
          req_URL = ''https://api.crypto.com/v2/exchange/v1/private/get-deposit-history'',
          req_Query = [],
          req_Header = [(''Content-Type'', ''application/json'')],
          req_Body = Some (JObject
            [(''id'', JInt 1),
             (''method'', JString ''private/get-deposit-history''),
             (''nonce'', JInt 1668066540018),
             (''params'', JObject [(''currency'', JString [CHR 0xEF, CHR 0xBF, CHR 0xBD]),
                                   (''page'', JInt 0)]),
             (''sig'', JString ''sig''), (''api_key'', JString ''k''),
             (''version'', JString [])])\<rparr>],
      Inr ())"
  by (simp add: GetDepositHistory_def ffCurrency_params sign_and_post_def Let_def
      Post_def doRequest_def json_Marshal_def marshal_Params_def NewRequest_def Header_Set_def
      V1_def methodGetDepositHistory_def CheckErrorResponse_def json_string_ascii
      json_string_FF ffCurrency_PageSize fixedClient_def fixedEnv_def fixedSignature_def
      fixedParse_def fixedDo_def fixedUnmarshal_def UnixMilli_def)

lemma fixed_valid:
  shows "valid_utf8 (apiKey fixedClient)" and "apiKey fixedClient \<noteq> []"
    and "valid_utf8 (dh_Currency btcPage0)" and "valid_utf8 (dh_Status btcPage0)"
    and "valid_utf8 (wh_Currency btcWithdrawals)" and "valid_utf8 (wh_Status btcWithdrawals)"
  by (simp_all add: fixedClient_def btcPage0_def btcWithdrawals_def valid_utf8_ascii)

text \<open>
  C6, as stated, fails: with the currency \<open>FF\<close> (a Go string that is no valid UTF-8)
  \<open>GetDepositHistory\<close> signs the map with that byte and sends a body whose \<open>params\<close>
  hold U+FFFD in its place.
\<close>

theorem invalid_utf8_sent_not_as_signed:
  "apiKey fixedClient \<noteq> []
   \<and> \<not> sent_as_signed (fst (GetDepositHistory fixedEnv fixedClient ffCurrency))
   \<and> map sr_Params (signatures_asked (fst (GetDepositHistory fixedEnv fixedClient ffCurrency)))
       = [Some [(''currency'', JString [CHR 0xFF]), (''page'', JInt 0)]]
   \<and> map transmitted_params
         (requests_sent (fst (GetDepositHistory fixedEnv fixedClient ffCurrency)))
       = [Some (JObject [(''currency'', JString [CHR 0xEF, CHR 0xBF, CHR 0xBD]),
                         (''page'', JInt 0)])]"
  by (simp add: GetDepositHistory_ffCurrency fixed_valid envelope_matches_def
      same_params_def member_def transmitted_params_def doubleton_eq_iff)

theorem private_envelope_as_signed_witness:
  "apiKey fixedClient \<noteq> [] \<and> valid_utf8 (apiKey fixedClient)
   \<and> valid_utf8 (dh_Currency btcPage0) \<and> valid_utf8 (dh_Status btcPage0)
   \<and> valid_utf8 (wh_Currency btcWithdrawals) \<and> valid_utf8 (wh_Status btcWithdrawals)
   \<and> sent_as_signed (fst (GetDepositHistory fixedEnv fixedClient btcPage0))
   \<and> sent_as_signed (fst (GetWithdrawalHistory fixedEnv fixedClient btcWithdrawals))
   \<and> requests_sent (fst (GetDepositHistory fixedEnv fixedClient btcPage0)) =
       [\<lparr>req_Method = ''POST'',
         req_URL = ''https://api.crypto.com/v2/exchange/v1/private/get-deposit-history'',
         req_Query = [],
         req_Header = [(''Content-Type'', ''application/json'')],
         req_Body = Some (JObject
           [(''id'', JInt 1),
            (''method'', JString ''private/get-deposit-history''),
            (''nonce'', JInt 1668066540018),
            (''params'', JObject [(''currency'', JString ''BTC''), (''page'', JInt 0)]),
            (''sig'', JString ''sig''), (''api_key'', JString ''k''),
            (''version'', JString [])])\<rparr>]
   \<and> signatures_asked (fst (GetDepositHistory fixedEnv fixedClient btcPage0)) =
       [\<lparr>sr_APIKey = ''k'', sr_SecretKey = ''s'', sr_ID = 1,
         sr_Method = ''private/get-deposit-history'', sr_Timestamp = 1668066540018,
         sr_Params = Some [(''currency'', JString ''BTC''), (''page'', JInt 0)]\<rparr>]"
proof -
  from private_envelope_as_signed
      [where c = fixedClient and dh = btcPage0 and wh = btcWithdrawals and env = fixedEnv,
       OF fixed_valid(2) fixed_valid(1)]
  have "sent_as_signed (fst (GetDepositHistory fixedEnv fixedClient btcPage0))"
    and "sent_as_signed (fst (GetWithdrawalHistory fixedEnv fixedClient btcWithdrawals))"
    using fixed_valid by blast+
  then show ?thesis
    using fixed_valid by (simp add: GetDepositHistory_fixed)
qed

theorem envelope_members_witness:
  "json_Marshal \<lparr>ID = 1, Method = ''private/user-balance-history'', Nonce = 5,
                 Params = Some [], Signature = ''sig'', APIKey = ''k'', Version = V1\<rparr>
     = Inr (JObject [(''id'', JInt 1), (''method'', JString ''private/user-balance-history''),
                     (''nonce'', JInt 5), (''params'', JObject []), (''sig'', JString ''sig''),
                     (''api_key'', JString ''k''), (''version'', JString ''exchange/v1/'')])
   \<and> json_Marshal \<lparr>ID = 1, Method = ''public/get-instruments'', Nonce = 5,
                 Params = None, Signature = [], APIKey = [], Version = []\<rparr>
     = Inr (JObject [(''id'', JInt 1), (''method'', JString ''public/get-instruments''),
                     (''nonce'', JInt 5), (''params'', JNull), (''version'', JString [])])
   \<and> ''sig'' \<in> set (members (JObject [(''id'', JInt 1),
          (''method'', JString ''private/user-balance-history''),
          (''nonce'', JInt 5), (''params'', JObject []), (''sig'', JString ''sig''),
          (''api_key'', JString ''k''), (''version'', JString ''exchange/v1/'')]))
   \<and> ''sig'' \<notin> set (members (JObject [(''id'', JInt 1),
          (''method'', JString ''public/get-instruments''),
          (''nonce'', JInt 5), (''params'', JNull), (''version'', JString [])]))
   \<and> ''version'' \<in> set (members (JObject [(''id'', JInt 1),
          (''method'', JString ''public/get-instruments''),
          (''nonce'', JInt 5), (''params'', JNull), (''version'', JString [])]))"
proof -
  let ?a = "\<lparr>ID = 1, Method = ''private/user-balance-history'', Nonce = 5,
             Params = Some [], Signature = ''sig'', APIKey = ''k'', Version = V1\<rparr>"
  let ?b = "\<lparr>ID = 1, Method = ''public/get-instruments'', Nonce = 5,
             Params = None, Signature = [], APIKey = [], Version = []\<rparr>"
  have a: "json_Marshal ?a
     = Inr (JObject [(''id'', JInt 1), (''method'', JString ''private/user-balance-history''),
                     (''nonce'', JInt 5), (''params'', JObject []), (''sig'', JString ''sig''),
                     (''api_key'', JString ''k''), (''version'', JString ''exchange/v1/'')])"
    by (simp add: json_Marshal_def marshal_Params_def V1_def json_string_ascii)
  have b: "json_Marshal ?b
     = Inr (JObject [(''id'', JInt 1), (''method'', JString ''public/get-instruments''),
                     (''nonce'', JInt 5), (''params'', JNull), (''version'', JString [])])"
    by (simp add: json_Marshal_def marshal_Params_def json_string_ascii)
  from envelope_members [of ?a "JObject [(''id'', JInt 1),
        (''method'', JString ''private/user-balance-history''),
        (''nonce'', JInt 5), (''params'', JObject []), (''sig'', JString ''sig''),
        (''api_key'', JString ''k''), (''version'', JString ''exchange/v1/'')]"]
    envelope_members [of ?b "JObject [(''id'', JInt 1),
        (''method'', JString ''public/get-instruments''),
        (''nonce'', JInt 5), (''params'', JNull), (''version'', JString [])]"]
    a b
  show ?thesis by simp
qed

section \<open>The page parameter\<close>

lemma params_without_page:
  "map_of params ''page'' = Some v \<Longrightarrow> map_of ps ''page'' = None \<Longrightarrow> params \<noteq> ps"
  by auto

text \<open>
  C10. In the map \<open>GetDepositHistory\<close> and \<open>GetWithdrawalHistory\<close> build, \<open>page\<close> is
  always present with the value of \<open>Page\<close>, also when that is 0, while \<open>currency\<close>,
  \<open>page_size\<close>, \<open>start_ts\<close>, \<open>end_ts\<close> and \<open>status\<close> are present exactly when the field
  of the request is not empty or zero; when the page size is within bounds this map is the
  one handed to the signature generator, and it equals no map that lacks \<open>page\<close>.
\<close>

theorem page_always_signed:
  fixes env :: "'r env"
  shows "map_of (GetDepositHistory_params dh) ''page'' = Some (JInt (dh_Page dh))
    \<and> (map_of (GetDepositHistory_params dh) ''currency'' \<noteq> None) = (dh_Currency dh \<noteq> [])
    \<and> (map_of (GetDepositHistory_params dh) ''page_size'' \<noteq> None) = (dh_PageSize dh \<noteq> 0)
    \<and> (map_of (GetDepositHistory_params dh) ''start_ts'' \<noteq> None) = (\<not> IsZero (dh_Start dh))
    \<and> (map_of (GetDepositHistory_params dh) ''end_ts'' \<noteq> None) = (\<not> IsZero (dh_End dh))
    \<and> (map_of (GetDepositHistory_params dh) ''status'' \<noteq> None) = (dh_Status dh \<noteq> [])
    \<and> (0 \<le> dh_PageSize dh \<and> dh_PageSize dh \<le> 200 \<longrightarrow>
         map sr_Params (signatures_asked (fst (GetDepositHistory env c dh)))
           = [Some (GetDepositHistory_params dh)])
    \<and> (\<forall>ps. map_of ps ''page'' = None \<longrightarrow> GetDepositHistory_params dh \<noteq> ps)
    \<and> map_of (GetWithdrawalHistory_params wh) ''page'' = Some (JInt (wh_Page wh))
    \<and> (map_of (GetWithdrawalHistory_params wh) ''currency'' \<noteq> None) = (wh_Currency wh \<noteq> [])
    \<and> (map_of (GetWithdrawalHistory_params wh) ''page_size'' \<noteq> None) = (wh_PageSize wh \<noteq> 0)
    \<and> (map_of (GetWithdrawalHistory_params wh) ''start_ts'' \<noteq> None) = (\<not> IsZero (wh_Start wh))
    \<and> (map_of (GetWithdrawalHistory_params wh) ''end_ts'' \<noteq> None) = (\<not> IsZero (wh_End wh))
    \<and> (map_of (GetWithdrawalHistory_params wh) ''status'' \<noteq> None) = (wh_Status wh \<noteq> [])
    \<and> (0 \<le> wh_PageSize wh \<and> wh_PageSize wh \<le> 200 \<longrightarrow>
         map sr_Params (signatures_asked (fst (GetWithdrawalHistory env c wh)))
           = [Some (GetWithdrawalHistory_params wh)])
    \<and> (\<forall>ps. map_of ps ''page'' = None \<longrightarrow> GetWithdrawalHistory_params wh \<noteq> ps)"
proof -
  have d: "\<forall>ps. map_of ps ''page'' = None \<longrightarrow> GetDepositHistory_params dh \<noteq> ps"
    using params_without_page [OF GetDepositHistory_params_at(1)] by blast
  have w: "\<forall>ps. map_of ps ''page'' = None \<longrightarrow> GetWithdrawalHistory_params wh \<noteq> ps"
    using params_without_page [OF GetWithdrawalHistory_params_at(1)] by blast
  have sd: "0 \<le> dh_PageSize dh \<and> dh_PageSize dh \<le> 200 \<longrightarrow>
         map sr_Params (signatures_asked (fst (GetDepositHistory env c dh)))
           = [Some (GetDepositHistory_params dh)]"
    by (simp add: GetDepositHistory_def sign_and_post_signatures)
  have sw: "0 \<le> wh_PageSize wh \<and> wh_PageSize wh \<le> 200 \<longrightarrow>
         map sr_Params (signatures_asked (fst (GetWithdrawalHistory env c wh)))
           = [Some (GetWithdrawalHistory_params wh)]"
    by (simp add: GetWithdrawalHistory_def sign_and_post_signatures)
  show ?thesis
    using d w sd sw
    by (simp add: GetDepositHistory_params_at GetWithdrawalHistory_params_at)
qed

theorem page_always_signed_witness:
  "(0::int) \<le> dh_PageSize btcPage0 \<and> dh_PageSize btcPage0 \<le> 200 \<and> dh_Page btcPage0 = 0
   \<and> map sr_Params (signatures_asked (fst (GetDepositHistory fixedEnv fixedClient btcPage0)))
       = [Some [(''currency'', JString ''BTC''), (''page'', JInt 0)]]
   \<and> map_of [(''currency'', JString ''BTC'')] ''page'' = None
   \<and> GetDepositHistory_params btcPage0 \<noteq> [(''currency'', JString ''BTC'')]
   \<and> (0::int) \<le> wh_PageSize btcWithdrawals \<and> wh_PageSize btcWithdrawals \<le> 200
   \<and> map sr_Params
         (signatures_asked (fst (GetWithdrawalHistory fixedEnv fixedClient btcWithdrawals)))
       = [Some [(''currency'', JString ''BTC''), (''page'', JInt 0)]]"
  using page_always_signed [of btcPage0 fixedEnv fixedClient btcWithdrawals]
    btcPage0_PageSize btcWithdrawals_PageSize
  by (simp add: btcPage0_params btcWithdrawals_params)

section \<open>Public endpoints\<close>

lemma send_and_decode_trace: "fst (send_and_decode env c req) = [HTTPDo req]"
  by (auto simp: send_and_decode_def split: sum.splits prod.splits option.splits)

lemma set_Encode: "set (Encode q) = set q"
  by (simp add: Encode_def)

lemma GetTickers_requests:
  "list_all (\<lambda>r. req_Method r = ''GET'' \<and> req_Body r = None
                 \<and> (instrument = [] \<or> (''instrument_name'', instrument) \<in> set (req_Query r)))
     (requests_sent (fst (GetTickers env c instrument)))"
  by (auto simp: GetTickers_def NewRequest_def Header_Set_def Let_def send_and_decode_trace
      set_Encode split: sum.splits)

lemma GetTickers_signatures: "signatures_asked (fst (GetTickers env c instrument)) = []"
  by (auto simp: GetTickers_def Let_def send_and_decode_trace split: sum.splits)

lemma GetBook_requests:
  "list_all (\<lambda>r. req_Method r = ''GET'' \<and> req_Body r = None
                 \<and> (''instrument_name'', instrument) \<in> set (req_Query r)
                 \<and> (depth \<le> 0 \<or> (''depth'', string_of_int depth) \<in> set (req_Query r)))
     (requests_sent (fst (GetBook env c instrument depth)))"
  by (auto simp: GetBook_def NewRequest_def Header_Set_def Let_def send_and_decode_trace
      set_Encode split: sum.splits)

lemma GetBook_signatures: "signatures_asked (fst (GetBook env c instrument depth)) = []"
  by (auto simp: GetBook_def Let_def send_and_decode_trace split: sum.splits)

lemma json_string_methodGetInstruments:
  "json_string methodGetInstruments = methodGetInstruments"
  by (simp add: methodGetInstruments_def json_string_ascii)

lemma GetInstruments_trace:
  "fst (GetInstruments env c) = [GenerateID, ClockNow]
   \<or> (\<exists>q. fst (GetInstruments env c) =
        [GenerateID, ClockNow,
         HTTPDo \<lparr>req_Method = ''GET'',
                 req_URL = BaseURL (requester c) @ V1 @ methodGetInstruments,
                 req_Query = q,
                 req_Header = [(''Content-Type'', ''application/json'')],
                 req_Body = Some (JObject
                   [(''id'', JInt (idGenerator c)),
                    (''method'', JString methodGetInstruments),
                    (''nonce'', JInt (UnixMilli (clock c))),
                    (''params'', JNull),
                    (''version'', JString [])])\<rparr>]
          \<and> url_Parse env (BaseURL (requester c) @ V1 @ methodGetInstruments) = Inr q)"
  by (auto simp: GetInstruments_def Get_def doRequest_def json_Marshal_def marshal_Params_def
      NewRequest_def Header_Set_def Let_def json_string_methodGetInstruments
      json_string.simps(1) split: sum.splits prod.splits option.splits)

lemma GetInstruments_requests:
  "list_all (\<lambda>r. req_Method r = ''GET''
                 \<and> req_Body r = Some (JObject
                       [(''id'', JInt (idGenerator c)),
                        (''method'', JString methodGetInstruments),
                        (''nonce'', JInt (UnixMilli (clock c))),
                        (''params'', JNull),
                        (''version'', JString [])])
                 \<and> url_Parse env (req_URL r) = Inr (req_Query r))
     (requests_sent (fst (GetInstruments env c)))"
  using GetInstruments_trace [of env c] by auto

lemma GetInstruments_signatures: "signatures_asked (fst (GetInstruments env c)) = []"
  using GetInstruments_trace [of env c] by auto

lemma GetInstruments_fixed:
  "GetInstruments fixedEnv fixedClient =
     ([GenerateID, ClockNow,
       HTTPDo \<lparr>req_Method = ''GET'',
               req_URL = ''https://api.crypto.com/v2/exchange/v1/public/get-instruments'',
               req_Query = [],
               req_Header = [(''Content-Type'', ''application/json'')],
               req_Body = Some (JObject
                 [(''id'', JInt 1),
                  (''method'', JString ''public/get-instruments''),
                  (''nonce'', JInt 1668066540018),
                  (''params'', JNull),
                  (''version'', JString [])])\<rparr>],
      Inr ())"
  by (simp add: GetInstruments_def Get_def doRequest_def json_Marshal_def marshal_Params_def
      NewRequest_def Header_Set_def Let_def V1_def methodGetInstruments_def
      json_string_ascii CheckErrorResponse_def fixedClient_def fixedEnv_def fixedParse_def fixedDo_def
      fixedUnmarshal_def UnixMilli_def)

text \<open>
  C5, as stated, fails for \<open>GetInstruments\<close>: on the fixed client it sends one \<open>GET\<close>
  request, and that request has a body, the JSON envelope.
\<close>

theorem GetInstruments_sends_body:
  "\<not> list_all (\<lambda>r. req_Method r = ''GET'' \<and> req_Body r = None)
       (requests_sent (fst (GetInstruments fixedEnv fixedClient)))
   \<and> map req_Method (requests_sent (fst (GetInstruments fixedEnv fixedClient))) = [''GET'']
   \<and> map req_Body (requests_sent (fst (GetInstruments fixedEnv fixedClient))) =
       [Some (JObject
          [(''id'', JInt 1),
           (''method'', JString ''public/get-instruments''),
           (''nonce'', JInt 1668066540018),
           (''params'', JNull),
           (''version'', JString [])])]"
  by (simp add: GetInstruments_fixed)

text \<open>
  C5, amended. \<open>GetTickers\<close> and \<open>GetBook\<close> send only \<open>GET\<close> requests without a body,
  with their parameters among the query pairs of the URL (\<open>instrument_name\<close> when an
  instrument is given, for \<open>GetBook\<close> always, and \<open>depth\<close> when it is positive).
  \<open>GetInstruments\<close> sends only \<open>GET\<close> requests whose body is the JSON envelope with
  exactly \<open>id\<close>, \<open>method\<close>, \<open>nonce\<close>, \<open>params\<close> (null) and \<open>version\<close>, and adds nothing
  to the query of the URL. None of the three asks for a signature, and no \<open>sig\<close> or
  \<open>api_key\<close> is sent.
\<close>

theorem public_requests:
  fixes env :: "'r env"
  shows "list_all (\<lambda>r. req_Method r = ''GET'' \<and> req_Body r = None
                 \<and> (instrument = [] \<or> (''instrument_name'', instrument) \<in> set (req_Query r)))
           (requests_sent (fst (GetTickers env c instrument)))
    \<and> signatures_asked (fst (GetTickers env c instrument)) = []
    \<and> list_all (\<lambda>r. req_Method r = ''GET'' \<and> req_Body r = None
                 \<and> (''instrument_name'', instrument) \<in> set (req_Query r)
                 \<and> (depth \<le> 0 \<or> (''depth'', string_of_int depth) \<in> set (req_Query r)))
           (requests_sent (fst (GetBook env c instrument depth)))
    \<and> signatures_asked (fst (GetBook env c instrument depth)) = []
    \<and> list_all (\<lambda>r. req_Method r = ''GET''
                 \<and> req_Body r = Some (JObject
                       [(''id'', JInt (idGenerator c)),
                        (''method'', JString methodGetInstruments),
                        (''nonce'', JInt (UnixMilli (clock c))),
                        (''params'', JNull),
                        (''version'', JString [])])
                 \<and> url_Parse env (req_URL r) = Inr (req_Query r))
           (requests_sent (fst (GetInstruments env c)))
    \<and> signatures_asked (fst (GetInstruments env c)) = []"
  by (simp only: GetTickers_requests GetTickers_signatures GetBook_requests GetBook_signatures
      GetInstruments_requests GetInstruments_signatures simp_thms)

lemma GetBook_fixed:
  "GetBook fixedEnv fixedClient ''BTC_USDT'' 5 =
     ([HTTPDo \<lparr>req_Method = ''GET'',
               req_URL = ''https://api.crypto.com/v2/v2/public/get-book'',
               req_Query = [(''depth'', ''5''), (''instrument_name'', ''BTC_USDT'')],
               req_Header = [(''Content-Type'', ''application/json'')],
               req_Body = None\<rparr>],
      Inr ())"
  by (simp add: GetBook_def NewRequest_def fixedEnv_def fixedClient_def fixedParse_def
      fixedDo_def fixedUnmarshal_def V2_def methodGetBook_def Header_Set_def Encode_def
      send_and_decode_def CheckErrorResponse_def string_of_int_def string_of_nat.simps)

theorem public_requests_witness:
  "requests_sent (fst (GetTickers fixedEnv fixedClient ''some instrument'')) =
     [\<lparr>req_Method = ''GET'',
       req_URL = ''https://api.crypto.com/v2/exchange/v1/public/get-tickers'',
       req_Query = [(''instrument_name'', ''some instrument'')],
       req_Header = [(''Content-Type'', ''application/json'')],
       req_Body = None\<rparr>]
   \<and> requests_sent (fst (GetBook fixedEnv fixedClient ''BTC_USDT'' 5)) =
     [\<lparr>req_Method = ''GET'',
       req_URL = ''https://api.crypto.com/v2/v2/public/get-book'',
       req_Query = [(''depth'', ''5''), (''instrument_name'', ''BTC_USDT'')],
       req_Header = [(''Content-Type'', ''application/json'')],
       req_Body = None\<rparr>]
   \<and> signatures_asked (fst (GetTickers fixedEnv fixedClient ''some instrument'')) = []
   \<and> signatures_asked (fst (GetBook fixedEnv fixedClient ''BTC_USDT'' 5)) = []
   \<and> signatures_asked (fst (GetInstruments fixedEnv fixedClient)) = []
   \<and> map req_Method (requests_sent (fst (GetInstruments fixedEnv fixedClient))) = [''GET'']"
  using public_requests [of "''some instrument''" fixedEnv fixedClient 5]
    public_requests [of "''BTC_USDT''" fixedEnv fixedClient 5]
  by (simp add: GetTickers_teapot GetBook_fixed GetInstruments_fixed)

section \<open>The canonical parameter string\<close>

lemma sorted_keys:
  assumes "distinct (map fst kvs)"
  shows "map fst (sort_key fst kvs) = sorted_list_of_set (fst ` set kvs)"
proof (rule sorted_distinct_set_unique)
  show "sorted (map fst (sort_key fst kvs))"
    by (rule sorted_sort_key)
  show "distinct (map fst (sort_key fst kvs))"
    using assms by (simp add: distinct_map)
  show "sorted (sorted_list_of_set (fst ` set kvs))"
    by simp
  show "distinct (sorted_list_of_set (fst ` set kvs))"
    by simp
  show "set (map fst (sort_key fst kvs)) = set (sorted_list_of_set (fst ` set kvs))"
    by simp
qed

lemma concat_by_keys:
  assumes "distinct (map fst kvs)"
  shows "concat (map (\<lambda>(k, v). k @ t v) (sort_key fst kvs))
       = concat (map (\<lambda>k. k @ t (the (map_of kvs k))) (sorted_list_of_set (fst ` set kvs)))"
proof -
  have "map (\<lambda>(k, v). k @ t v) (sort_key fst kvs)
      = map (\<lambda>k. k @ t (the (map_of kvs k))) (map fst (sort_key fst kvs))"
    using assms by (auto simp: map_of_eq_Some_iff [THEN iffD2])
  then show ?thesis
    by (simp only: sorted_keys [OF assms])
qed

lemma non_null_keys:
  assumes "distinct (map fst kvs)"
  shows "fst ` set (filter (\<lambda>(k, v). v \<noteq> JNull) kvs)
       = {k \<in> fst ` set kvs. map_of kvs k \<noteq> Some JNull}"
proof -
  have m: "((k, v) \<in> set kvs) = (map_of kvs k = Some v)" for k v
    using assms by (simp add: map_of_eq_Some_iff)
  have "fst ` set (filter (\<lambda>(k, v). v \<noteq> JNull) kvs)
      = {k. \<exists>v. (k, v) \<in> set kvs \<and> v \<noteq> JNull}"
    by force
  also have "\<dots> = {k. \<exists>v. map_of kvs k = Some v \<and> v \<noteq> JNull}"
    by (simp only: m)
  also have "\<dots> = {k. (\<exists>v. map_of kvs k = Some v) \<and> map_of kvs k \<noteq> Some JNull}"
    by auto
  also have "\<dots> = {k. (\<exists>v. (k, v) \<in> set kvs) \<and> map_of kvs k \<noteq> Some JNull}"
    by (simp only: m)
  also have "\<dots> = {k \<in> fst ` set kvs. map_of kvs k \<noteq> Some JNull}"
    by force
  finally show ?thesis .
qed

lemma non_null_lookup:
  assumes "distinct (map fst kvs)" and "k \<in> fst ` set (filter (\<lambda>(k, v). v \<noteq> JNull) kvs)"
  shows "map_of (filter (\<lambda>(k, v). v \<noteq> JNull) kvs) k = map_of kvs k"
proof -
  from assms(2) obtain v where v: "(k, v) \<in> set kvs" "v \<noteq> JNull"
    by auto
  have d: "distinct (map fst (filter (\<lambda>(k, v). v \<noteq> JNull) kvs))"
    using assms(1) by (rule distinct_map_filter)
  have "map_of (filter (\<lambda>(k, v). v \<noteq> JNull) kvs) k = Some v"
    using d v by (simp add: map_of_eq_Some_iff)
  moreover have "map_of kvs k = Some v"
    using assms(1) v by (simp add: map_of_eq_Some_iff)
  ultimately show ?thesis by simp
qed

lemma canonicalize_by_keys:
  assumes "distinct (map fst params)"
  shows "canonicalize ft params
       = concat (map (\<lambda>k. k @ canonical_text ft (the (map_of params k)))
           (sorted_list_of_set {k \<in> fst ` set params. map_of params k \<noteq> Some JNull}))"
proof -
  let ?nn = "filter (\<lambda>(k, v). v \<noteq> JNull) params"
  have d: "distinct (map fst ?nn)"
    using assms by (rule distinct_map_filter)
  have "canonicalize ft params
      = concat (map (\<lambda>k. k @ canonical_text ft (the (map_of ?nn k)))
          (sorted_list_of_set (fst ` set ?nn)))"
    by (simp only: canonicalize_def canonical_text.simps concat_by_keys [OF d])
  also have "\<dots> = concat (map (\<lambda>k. k @ canonical_text ft (the (map_of params k)))
          (sorted_list_of_set (fst ` set ?nn)))"
    by (rule arg_cong [where f = concat], rule map_cong)
       (simp_all add: non_null_lookup [OF assms])
  finally show ?thesis
    by (simp only: non_null_keys [OF assms])
qed

lemma canonicalize_map_of:
  assumes "distinct (map fst p)" and "distinct (map fst q)" and "map_of p = map_of q"
  shows "canonicalize ft p = canonicalize ft q"
proof -
  have "fst ` set p = fst ` set q"
    using assms(3) by (metis dom_map_of_conv_image_fst)
  then show ?thesis
    by (simp add: canonicalize_by_keys assms)
qed

lemma canonicalize_vector:
  "canonicalize ft [(''currency'', JString ''BTC''), (''page'', JInt 0)] = ''currencyBTCpage0''"
  "canonicalize ft [(''page'', JInt 0), (''currency'', JString ''BTC'')] = ''currencyBTCpage0''"
  by (simp_all add: canonicalize_def string_of_int_def string_of_nat.simps)

lemma string_of_int_nonce: "string_of_int 1668066540018 = ''1668066540018''"
  by (simp add: string_of_int_def string_of_nat.simps)

lemma string_of_int_1: "string_of_int 1 = ''1''"
  by (simp add: string_of_int_def string_of_nat.simps)

lemma signing_input_fixed:
  "map (signing_input ft) (signatures_asked (fst (GetDepositHistory fixedEnv fixedClient btcPage0)))
     = [''private/get-deposit-history1kcurrencyBTCpage01668066540018'']"
  by (simp add: GetDepositHistory_fixed signing_input_def canonicalize_vector
      string_of_int_nonce string_of_int_1)

text \<open>
  C1. The canonical string of \<open>{"currency": "BTC", "page": 0}\<close> is \<open>currencyBTCpage0\<close>,
  in whichever order the map was filled. For every parameter map (one entry per key) the
  canonical string is the concatenation, over the keys in ascending bytewise order, of
  the key followed by the text of its value, with nothing in between (a null value is
  left out with its key); a nested map follows the same rule. The signing input for
  method \<open>private/get-deposit-history\<close>, id 1, API key \<open>k\<close> and nonce 1668066540018 is
  the method, then \<open>1\<close>, \<open>k\<close>, \<open>currencyBTCpage0\<close> and \<open>1668066540018\<close>; it is the
  signing input of the signature request \<open>GetDepositHistory\<close> makes for these values.
\<close>

theorem canonical_signing_input:
  "canonicalize ft [(''currency'', JString ''BTC''), (''page'', JInt 0)] = ''currencyBTCpage0''
   \<and> canonicalize ft [(''page'', JInt 0), (''currency'', JString ''BTC'')] = ''currencyBTCpage0''
   \<and> (distinct (map fst params) \<longrightarrow>
        canonicalize ft params
          = concat (map (\<lambda>k. k @ canonical_text ft (the (map_of params k)))
              (sorted_list_of_set {k \<in> fst ` set params. map_of params k \<noteq> Some JNull})))
   \<and> canonical_text ft (JObject params) = canonicalize ft params
   \<and> signing_input ft
        \<lparr>sr_APIKey = ''k'', sr_SecretKey = secret, sr_ID = 1,
         sr_Method = ''private/get-deposit-history'', sr_Timestamp = 1668066540018,
         sr_Params = Some [(''currency'', JString ''BTC''), (''page'', JInt 0)]\<rparr>
       = ''private/get-deposit-history'' @ ''1'' @ ''k'' @ ''currencyBTCpage0''
           @ ''1668066540018''
   \<and> map (signing_input ft)
         (signatures_asked (fst (GetDepositHistory fixedEnv fixedClient btcPage0)))
       = [''private/get-deposit-history'' @ ''1'' @ ''k'' @ ''currencyBTCpage0''
            @ ''1668066540018'']"
  using canonicalize_by_keys [of params ft]
  by (simp add: canonicalize_vector signing_input_fixed signing_input_def
      string_of_int_nonce string_of_int_1)
     (simp add: canonicalize_def)

theorem canonical_signing_input_witness:
  "distinct (map fst [(''page'', JInt 0), (''currency'', JString ''BTC'')])
   \<and> canonicalize noFloatText [(''page'', JInt 0), (''currency'', JString ''BTC'')]
       = ''currencyBTCpage0''
   \<and> concat (map (\<lambda>k. k @ canonical_text noFloatText
                          (the (map_of [(''page'', JInt 0), (''currency'', JString ''BTC'')] k)))
         (sorted_list_of_set
            {k \<in> fst ` set [(''page'', JInt 0), (''currency'', JString ''BTC'')].
               map_of [(''page'', JInt 0), (''currency'', JString ''BTC'')] k \<noteq> Some JNull}))
       = ''currencyBTCpage0''
   \<and> canonicalize noFloatText
         [(''b'', JObject [(''y'', JInt 2), (''n'', JNull), (''x'', JBool True)]),
          (''a'', JArray [JString ''q'', JString ''p''])]
       = ''aqpbxtruey2''"
proof -
  have d: "distinct (map fst [(''page'', JInt 0), (''currency'', JString ''BTC'')])"
    by simp
  have n: "canonicalize noFloatText
         [(''b'', JObject [(''y'', JInt 2), (''n'', JNull), (''x'', JBool True)]),
          (''a'', JArray [JString ''q'', JString ''p''])]
       = ''aqpbxtruey2''"
    by (simp add: canonicalize_def string_of_int_def string_of_nat.simps)
  from canonical_signing_input
    [of noFloatText "[(''page'', JInt 0), (''currency'', JString ''BTC'')]"]
  have "canonicalize noFloatText [(''page'', JInt 0), (''currency'', JString ''BTC'')]
          = ''currencyBTCpage0''"
    and "distinct (map fst [(''page'', JInt 0), (''currency'', JString ''BTC'')]) \<longrightarrow>
         canonicalize noFloatText [(''page'', JInt 0), (''currency'', JString ''BTC'')]
          = concat (map (\<lambda>k. k @ canonical_text noFloatText
                          (the (map_of [(''page'', JInt 0), (''currency'', JString ''BTC'')] k)))
         (sorted_list_of_set
            {k \<in> fst ` set [(''page'', JInt 0), (''currency'', JString ''BTC'')].
               map_of [(''page'', JInt 0), (''currency'', JString ''BTC'')] k \<noteq> Some JNull}))"
    by blast+
  with d n show ?thesis
    by (simp only: simp_thms)
qed

end
